theory Spec2Isabelle
  imports
    Complex_Main
    "HOL-Library.Multiset"
    "HOL-Library.Char_ord"
    "HOL-Library.List_Lexorder"
    "HOL-Library.Product_Lexorder"
    "HOL-Library.Log_Nat"
begin

section \<open>JavaScript values shared by the components\<close>

text \<open>
  JavaScript strings are modelled as \<^typ>\<open>string\<close>, one \<^typ>\<open>char\<close> per code unit
  (the texts the components compare are ASCII: MIME types, role names, messages).
  A number is modelled by the real it stands for (every finite double is a real), and a
  parsed integer by an integer. A score is a finite number (JSON carries no \<open>NaN\<close>),
  so \<open><\<close> on two numbers is \<open><\<close> on the reals, and the sign of the difference of
  two scores is the sign of their comparison. The one quotient the components compute and
  compare, \<open>minSimilarity / 100\<close>, is rounded to double precision as JavaScript does
  (\<open>number_div\<close> below).

  Every event handler is modelled as one step, from the state in which it starts to the
  state after its last update. The outcome of a call it awaits is an argument of the
  step, and what the handler does outside the component (requests, callbacks, storage)
  is recorded in the state.
\<close>

text \<open>
  \<open>err.response?.data as ApiError\<close>: a rejected request. \<open>failure_status\<close> is
  \<open>error.response?.status\<close> and \<open>failure_detail\<close> is \<open>apiError?.detail\<close>; either is
  absent when the request got no response or the body has no such field.
\<close>

record api_failure =
  failure_status :: "nat option"
  failure_detail :: "string option"

text \<open>
  \<open>apiError?.detail || fallback\<close>: the fallback is taken when the detail is undefined or
  the empty string (both falsy).
\<close>

definition detail_or :: "string option \<Rightarrow> string \<Rightarrow> string" where
  "detail_or d fallback =
     (case d of None \<Rightarrow> fallback | Some s \<Rightarrow> if s = [] then fallback else s)"

text \<open>
  \<open>String.prototype.trim\<close> removes white space and line terminators from both ends.
  Of the code units below 256 these are TAB, LF, VT, FF, CR, SP and NBSP.
\<close>

definition isWhiteSpace :: "char \<Rightarrow> bool" where
  "isWhiteSpace c =
     (c \<in> set [CHR 0x09, CHR 0x0A, CHR 0x0B, CHR 0x0C, CHR 0x0D, CHR 0x20, CHR 0xA0])"

definition trim :: "string \<Rightarrow> string" where
  "trim s = rev (dropWhile isWhiteSpace (rev (dropWhile isWhiteSpace s)))"

text \<open>
  \<open>parseInt(s)\<close> with no radix: leading white space is skipped, a sign is read, a
  \<open>0x\<close> or \<open>0X\<close> prefix selects radix 16, and the longest run of digits is the
  value. \<open>None\<close> stands for \<open>NaN\<close> (no digit to read).
\<close>

definition digitValue :: "char \<Rightarrow> nat option" where
  "digitValue c = map_of (zip ''0123456789abcdef'' [0..<16] @ zip ''ABCDEF'' [10..<16]) c"

definition parseInt :: "string \<Rightarrow> int option" where
  "parseInt s =
     (let t = dropWhile isWhiteSpace s;
          negative = (case t of c # _ \<Rightarrow> c = CHR ''-'' | [] \<Rightarrow> False);
          u = (case t of c # r \<Rightarrow> if c = CHR ''-'' \<or> c = CHR ''+'' then r else t | [] \<Rightarrow> t);
          hex = (take 2 u = ''0x'' \<or> take 2 u = ''0X'');
          radix = (if hex then 16 else 10);
          v = (if hex then drop 2 u else u);
          ds = takeWhile (\<lambda>c. case digitValue c of None \<Rightarrow> False | Some d \<Rightarrow> d < radix) v;
          n = fold (\<lambda>c acc. case digitValue c of None \<Rightarrow> acc | Some d \<Rightarrow> acc * radix + d) ds 0
      in if ds = [] then None else Some (if negative then - int n else int n))"

text \<open>
  Number division. The quotient of two numbers is the exact quotient rounded to the
  nearest double (IEEE 754 binary64, ties to even): a double is an integer of at most 53
  bits times a power of two, the power being at least \<open>2 ^ - 1074\<close>.
  \<open>floor_log2 a\<close> is the exponent \<open>e\<close> with \<open>2 ^ e \<le> a < 2 ^ (e + 1)\<close> for
  \<open>a > 0\<close>, and \<open>ulp e\<close> is the distance \<open>2 ^ (e - 52)\<close> between neighbouring
  doubles at that exponent. Overflow to \<open>Infinity\<close> is not modelled: it needs a
  quotient of magnitude \<open>2 ^ 1024\<close>, and a finite number divided by 100 is smaller
  than that.
\<close>

definition floor_log2 :: "real \<Rightarrow> int" where
  "floor_log2 a =
     (if 1 \<le> a then int (floorlog 2 (nat \<lfloor>a\<rfloor>)) - 1
      else - int (floorlog 2 (nat (\<lceil>1 / a\<rceil> - 1))))"

definition round_half_even :: "real \<Rightarrow> int" where
  "round_half_even q =
     (let f = \<lfloor>q\<rfloor>; r = q - of_int f
      in if r < 1 / 2 then f else if 1 / 2 < r then f + 1 else if even f then f else f + 1)"

definition ulp :: "int \<Rightarrow> real" where
  "ulp e = (if 52 \<le> e then 2 ^ nat (e - 52) else 1 / 2 ^ nat (52 - e))"

definition to_double :: "real \<Rightarrow> real" where
  "to_double x =
     (if x = 0 then 0
      else (let e = max (floor_log2 \<bar>x\<bar>) (- 1022)
            in sgn x * of_int (round_half_even (\<bar>x\<bar> / ulp e)) * ulp e))"

definition number_div :: "real \<Rightarrow> real \<Rightarrow> real" where
  "number_div a b = to_double (a / b)"

text \<open>
  \<open>Array.prototype.sort(cmp)\<close> is a stable sort (ECMAScript 2019): elements the
  comparator calls equal keep their order. It is modelled as the stable insertion sort;
  for a comparator that is a consistent ordering every stable sort returns this list.
  The comparator returns a number, of which only the sign is used.
\<close>

fun insert_by :: "('a \<Rightarrow> 'a \<Rightarrow> real) \<Rightarrow> 'a \<Rightarrow> 'a list \<Rightarrow> 'a list" where
  "insert_by cmp x [] = [x]"
| "insert_by cmp x (y # ys) =
     (if cmp x y \<le> 0 then x # y # ys else y # insert_by cmp x ys)"

definition Array_sort :: "('a \<Rightarrow> 'a \<Rightarrow> real) \<Rightarrow> 'a list \<Rightarrow> 'a list" where
  "Array_sort cmp xs = foldr (insert_by cmp) xs []"

text \<open>\<open>Array.prototype.indexOf\<close>: the first index of the element, or \<open>-1\<close>.\<close>

fun indexOf :: "'a list \<Rightarrow> 'a \<Rightarrow> int" where
  "indexOf [] x = - 1"
| "indexOf (y # ys) x =
     (if y = x then 0 else (let i = indexOf ys x in if i < 0 then - 1 else i + 1))"

section \<open>Types (frontend/src/types/index.ts)\<close>

datatype user_role = candidate | recruiter

record User =
  uid :: string
  user_email :: string
  role :: user_role
  created_at :: string
  last_login_at :: "string option"
  is_active :: bool

text \<open>
  \<open>cv_processing_status: 'pending' | 'completed' | 'failed'\<close>: the union of three string
  literal types, with the literal each value stands for.
\<close>

datatype cv_processing_status_type = pending | completed | failed

fun status_literal :: "cv_processing_status_type \<Rightarrow> string" where
  "status_literal pending = ''pending''"
| "status_literal completed = ''completed''"
| "status_literal failed = ''failed''"

record Candidate = User +
  candidate_first_name :: string
  candidate_last_name :: string
  cv_uploaded_at :: "string option"
  cv_processing_status :: cv_processing_status_type
  vector_id :: "string option"
  cv_filename :: "string option"

record Recruiter = User +
  company_name :: string
  job_title :: string

record AuthResponse =
  access_token :: string
  token_type :: string
  expires_in :: int
  user_id :: string
  user_role :: user_role

record SearchResult =
  candidate_id :: string
  similarity_score :: real
  first_name :: "string option"
  last_name :: "string option"
  email :: "string option"
  matched_skills :: "string list option"
  experience_level :: "string option"

text \<open>
  \<open>filters?: Record<string, any>\<close> holds the strings the form stores, and
  \<open>limit?: number\<close> is \<open>None\<close> when there is no number (undefined or \<open>NaN\<close>).
\<close>

record SearchRequest =
  requirements :: string
  filters :: "string \<rightharpoonup> string"
  limit :: "int option"

record SearchResponse =
  results :: "SearchResult list"
  total_results :: int
  query_processed :: string
  search_time_ms :: "int option"

record CandidateCVResponse =
  cv_candidate_id :: string
  cv_content :: string
  cv_metadata :: "string \<rightharpoonup> string"

section \<open>CVUpload (unnamed/part\_003)\<close>

text \<open>
  A browser \<open>File\<close>: its name, its MIME type (\<open>file.type\<close>) and its size in bytes
  (\<open>file.size\<close>, a non-negative integer).
\<close>

record File =
  file_name :: string
  file_type :: string
  file_size :: nat

text \<open>
  The component's \<open>useState\<close> cells, the DOM file input the ref points to (\<open>None\<close> when
  \<open>fileInputRef.current\<close> is null, otherwise the input's current text), and the two
  effects a handler can have outside the component: the files handed to
  \<open>candidateApi.uploadCV\<close> (one entry per upload request, oldest first) and the number of
  \<open>onUploadSuccess\<close> calls.
\<close>

record CVUpload =
  selectedFile :: "File option"
  uploading :: bool
  uploadProgress :: nat
  upload_error :: string
  upload_success :: string
  fileInput :: "string option"
  uploadRequests :: "File list"
  onUploadSuccessCalls :: nat

definition allowedTypes :: "string list" where
  "allowedTypes =
     [''application/pdf'', ''application/msword'',
      ''application/vnd.openxmlformats-officedocument.wordprocessingml.document'']"

definition maxFileSize :: nat where
  "maxFileSize = 10 * 1024 * 1024"

text \<open>
  \<open>handleFileSelect\<close>: the argument is \<open>e.target.files?.[0]\<close>, \<open>None\<close> when the event
  carries no file.
\<close>

definition handleFileSelect :: "File option \<Rightarrow> CVUpload \<Rightarrow> CVUpload" where
  "handleFileSelect file s =
     (let s1 = s\<lparr>upload_error := [], upload_success := []\<rparr> in
      case file of
        None \<Rightarrow> s1\<lparr>selectedFile := None\<rparr>
      | Some f \<Rightarrow>
          if file_type f \<notin> set allowedTypes then
            s1\<lparr>upload_error := ''Please select a PDF, DOC, or DOCX file'', selectedFile := None\<rparr>
          else if file_size f > maxFileSize then
            s1\<lparr>upload_error := ''File size must be less than 10MB'', selectedFile := None\<rparr>
          else s1\<lparr>selectedFile := Some f\<rparr>)"

text \<open>
  \<open>handleUpload\<close>: the first argument is the outcome of the awaited
  \<open>candidateApi.uploadCV\<close> call (\<open>Inl\<close> a rejection, \<open>Inr\<close> the response message).
  The progress callback only writes \<open>uploadProgress\<close>, which the \<open>finally\<close> block
  resets to 0, so the state after the handler does not depend on it.
\<close>

definition handleUpload :: "api_failure + string \<Rightarrow> CVUpload \<Rightarrow> CVUpload" where
  "handleUpload outcome s =
     (case selectedFile s of
        None \<Rightarrow> s\<lparr>upload_error := ''Please select a file to upload''\<rparr>
      | Some f \<Rightarrow>
          (let s1 = s\<lparr>uploading := True, uploadProgress := 0, upload_error := [],
                      upload_success := [], uploadRequests := uploadRequests s @ [f]\<rparr>;
               s2 = (case outcome of
                       Inr _ \<Rightarrow>
                         s1\<lparr>upload_success := ''CV processed successfully!'',
                            selectedFile := None,
                            fileInput := (case fileInput s1 of None \<Rightarrow> None | Some _ \<Rightarrow> Some []),
                            onUploadSuccessCalls := Suc (onUploadSuccessCalls s1)\<rparr>
                     | Inl err \<Rightarrow>
                         s1\<lparr>upload_error :=
                              detail_or (failure_detail err) ''Upload failed. Please try again.''\<rparr>)
           in s2\<lparr>uploading := False, uploadProgress := 0\<rparr>))"

text \<open>
  \<open>handleDrop\<close>: the dropped file list; the first file, when there is one, goes through
  \<open>handleFileSelect\<close> by a synthetic event.
\<close>

definition handleDrop :: "File list \<Rightarrow> CVUpload \<Rightarrow> CVUpload" where
  "handleDrop files s = (case files of [] \<Rightarrow> s | f # _ \<Rightarrow> handleFileSelect (Some f) s)"

text \<open>The Cancel button: the selection is dropped and the file input cleared.\<close>

definition cancelSelection :: "CVUpload \<Rightarrow> CVUpload" where
  "cancelSelection s =
     s\<lparr>selectedFile := None,
       fileInput := (case fileInput s of None \<Rightarrow> None | Some _ \<Rightarrow> Some [])\<rparr>"

definition CVUpload_initial :: CVUpload where
  "CVUpload_initial =
     \<lparr>selectedFile = None, uploading = False, uploadProgress = 0, upload_error = [],
      upload_success = [], fileInput = Some [], uploadRequests = [],
      onUploadSuccessCalls = 0\<rparr>"

section \<open>CandidateDashboard (unnamed/part\_004)\<close>

definition getStatusColor :: "string \<Rightarrow> string" where
  "getStatusColor status =
     (if status = ''completed'' then ''green''
      else if status = ''processing'' then ''orange''
      else if status = ''failed'' then ''red''
      else ''gray'')"

definition getStatusText :: "string \<Rightarrow> string" where
  "getStatusText status =
     (if status = ''completed'' then ''CV Processed Successfully''
      else if status = ''processing'' then ''Processing CV...''
      else if status = ''failed'' then ''Processing Failed''
      else ''No CV Uploaded'')"

text \<open>
  \<open>profile?.cv_processing_status || 'none'\<close>: the text handed to \<open>getStatusColor\<close> and
  \<open>getStatusText\<close>. The profile is \<open>None\<close> until it is loaded; the three literals of
  the type are non-empty, so the fallback is taken for a missing profile only.
\<close>

definition displayedStatus :: "Candidate option \<Rightarrow> string" where
  "displayedStatus profile =
     (case profile of
        None \<Rightarrow> ''none''
      | Some p \<Rightarrow>
          (let t = status_literal (cv_processing_status p) in if t = [] then ''none'' else t))"

section \<open>SearchInterface (frontend/src/components/recruiter/SearchInterface.tsx)\<close>

text \<open>
  The \<open>useState\<close> cells of the form, and what its handlers do outside it: the requests
  handed to \<open>recruiterApi.search\<close>, the \<open>onSearchResults\<close> calls (results and criteria)
  and the \<open>recruiterApi.saveSearch\<close> calls, each oldest first.
\<close>

record SearchInterface =
  searchData :: SearchRequest
  searching :: bool
  search_error :: string
  showAdvanced :: bool
  searchRequests :: "SearchRequest list"
  onSearchResultsCalls :: "(SearchResult list \<times> SearchRequest) list"
  saveSearchRequests :: "(string \<times> SearchRequest) list"

definition SearchInterface_initial :: SearchInterface where
  "SearchInterface_initial =
     \<lparr>searchData = \<lparr>requirements = [], filters = Map.empty, limit = Some 10\<rparr>,
      searching = False, search_error = [], showAdvanced = False, searchRequests = [],
      onSearchResultsCalls = [], saveSearchRequests = []\<rparr>"

definition handleRequirementsChange :: "string \<Rightarrow> SearchInterface \<Rightarrow> SearchInterface" where
  "handleRequirementsChange v s =
     s\<lparr>searchData := (searchData s)\<lparr>requirements := v\<rparr>, search_error := []\<rparr>"

text \<open>\<open>[filterKey]: value || undefined\<close>: an empty text removes the filter.\<close>

definition handleFilterChange :: "string \<Rightarrow> string \<Rightarrow> SearchInterface \<Rightarrow> SearchInterface" where
  "handleFilterChange filterKey v s =
     s\<lparr>searchData := (searchData s)
         \<lparr>filters := (filters (searchData s))(filterKey := (if v = [] then None else Some v))\<rparr>\<rparr>"

text \<open>
  The \<open>option\<close> elements of the limit \<open>select\<close>; \<open>e.target.value\<close> of its change
  event is the text of one of them.
\<close>

definition limitOptions :: "string list" where
  "limitOptions = [''3'', ''5'', ''10'', ''15'', ''20'', ''25'', ''30'', ''40'', ''50'']"

definition handleLimitChange :: "string \<Rightarrow> SearchInterface \<Rightarrow> SearchInterface" where
  "handleLimitChange v s = s\<lparr>searchData := (searchData s)\<lparr>limit := parseInt v\<rparr>\<rparr>"

definition toggleAdvanced :: "SearchInterface \<Rightarrow> SearchInterface" where
  "toggleAdvanced s = s\<lparr>showAdvanced := \<not> showAdvanced s\<rparr>"

text \<open>
  \<open>handleSearch\<close>: the first argument is the outcome of the awaited
  \<open>recruiterApi.search\<close> call, used only when the call is made.
\<close>

definition handleSearch :: "api_failure + SearchResponse \<Rightarrow> SearchInterface \<Rightarrow> SearchInterface" where
  "handleSearch outcome s =
     (if trim (requirements (searchData s)) = [] then
        s\<lparr>search_error := ''Please enter job requirements''\<rparr>
      else
        (let s1 = s\<lparr>searching := True, search_error := [],
                    searchRequests := searchRequests s @ [searchData s]\<rparr>;
             s2 = (case outcome of
                     Inr response \<Rightarrow>
                       s1\<lparr>onSearchResultsCalls :=
                            onSearchResultsCalls s1 @ [(results response, searchData s)]\<rparr>
                   | Inl err \<Rightarrow>
                       s1\<lparr>search_error :=
                            detail_or (failure_detail err) ''Search failed. Please try again.''\<rparr>)
         in s2\<lparr>searching := False\<rparr>))"

text \<open>
  \<open>handleSaveSearch\<close>: the first argument is what \<open>prompt\<close> returned (\<open>None\<close> when it
  was dismissed), the second the outcome of \<open>recruiterApi.saveSearch\<close>.
\<close>

definition handleSaveSearch ::
  "string option \<Rightarrow> api_failure + string \<Rightarrow> SearchInterface \<Rightarrow> SearchInterface" where
  "handleSaveSearch prompted outcome s =
     (case prompted of
        None \<Rightarrow> s
      | Some name \<Rightarrow>
          if name = [] then s
          else
            (let s1 = s\<lparr>saveSearchRequests := saveSearchRequests s @ [(name, searchData s)]\<rparr>
             in case outcome of
                  Inr _ \<Rightarrow> s1
                | Inl err \<Rightarrow>
                    s1\<lparr>search_error :=
                         detail_or (failure_detail err) ''Failed to save search''\<rparr>))"

text \<open>
  The states the form can be in: the initial state, and every state a handler produces
  from one of them. The limit \<open>select\<close> reports one of its options.
\<close>

inductive reachable :: "SearchInterface \<Rightarrow> bool" where
  initial: "reachable SearchInterface_initial"
| requirements_change: "reachable s \<Longrightarrow> reachable (handleRequirementsChange v s)"
| filter_change: "reachable s \<Longrightarrow> reachable (handleFilterChange k v s)"
| limit_change: "reachable s \<Longrightarrow> v \<in> set limitOptions \<Longrightarrow> reachable (handleLimitChange v s)"
| toggle: "reachable s \<Longrightarrow> reachable (toggleAdvanced s)"
| search: "reachable s \<Longrightarrow> reachable (handleSearch outcome s)"
| save: "reachable s \<Longrightarrow> reachable (handleSaveSearch prompted saved s)"

section \<open>SearchResults (frontend/src/components/recruiter/SearchInterface.tsx, second component)\<close>

datatype SortBy = similarity | experience

datatype SortOrder = asc | desc

record CVModalState =
  isOpen :: bool
  candidateId :: string
  candidateName :: string
  cvContent :: string
  modal_loading :: bool
  modal_error :: string

text \<open>
  The \<open>useState\<close> cells of the result list, and the candidate ids handed to
  \<open>recruiterApi.getCandidateCV\<close>, oldest first.
\<close>

record SearchResults =
  sortBy :: SortBy
  sortOrder :: SortOrder
  minSimilarity :: int
  experienceFilter :: string
  cvModal :: CVModalState
  cvRequests :: "string list"

definition closedModal :: CVModalState where
  "closedModal =
     \<lparr>isOpen = False, candidateId = [], candidateName = [], cvContent = [],
      modal_loading = False, modal_error = []\<rparr>"

definition SearchResults_initial :: SearchResults where
  "SearchResults_initial =
     \<lparr>sortBy = similarity, sortOrder = desc, minSimilarity = 0, experienceFilter = [],
      cvModal = closedModal, cvRequests = []\<rparr>"

text \<open>The callback of \<open>results.filter\<close>.\<close>

definition keeps :: "SearchResults \<Rightarrow> SearchResult \<Rightarrow> bool" where
  "keeps st result =
     (if similarity_score result < number_div (real_of_int (minSimilarity st)) 100 then False
      else if experienceFilter st \<noteq> [] \<and> experience_level result \<noteq> Some (experienceFilter st)
        then False
      else True)"

definition experienceLevels :: "string list" where
  "experienceLevels = [''entry'', ''mid'', ''senior'', ''lead'']"

text \<open>\<open>a.experience_level || ''\<close>.\<close>

definition level_or_empty :: "SearchResult \<Rightarrow> string" where
  "level_or_empty r = (case experience_level r of None \<Rightarrow> [] | Some l \<Rightarrow> l)"

text \<open>The callback of \<open>filtered.sort\<close>.\<close>

definition compareResults :: "SearchResults \<Rightarrow> SearchResult \<Rightarrow> SearchResult \<Rightarrow> real" where
  "compareResults st a b =
     (let comparison =
        (case sortBy st of
           similarity \<Rightarrow> similarity_score a - similarity_score b
         | experience \<Rightarrow>
             real_of_int (indexOf experienceLevels (level_or_empty a)
                          - indexOf experienceLevels (level_or_empty b)))
      in if sortOrder st = desc then - comparison else comparison)"

definition filteredAndSortedResults :: "SearchResults \<Rightarrow> SearchResult list \<Rightarrow> SearchResult list" where
  "filteredAndSortedResults st rs = Array_sort (compareResults st) (filter (keeps st) rs)"

text \<open>
  \<open>handleViewDetails\<close>: the first argument is the outcome of the awaited
  \<open>recruiterApi.getCandidateCV\<close> call.
\<close>

definition viewedName :: "SearchResult \<Rightarrow> string" where
  "viewedName r =
     (case (first_name r, last_name r) of
        (Some f, Some l) \<Rightarrow>
          if f \<noteq> [] \<and> l \<noteq> [] then f @ '' '' @ l
          else ''Candidate '' @ take 8 (candidate_id r)
      | _ \<Rightarrow> ''Candidate '' @ take 8 (candidate_id r))"

definition handleViewDetails ::
  "api_failure + CandidateCVResponse \<Rightarrow> SearchResult \<Rightarrow> SearchResults \<Rightarrow> SearchResults" where
  "handleViewDetails outcome r st =
     (let st1 = st\<lparr>cvModal :=
                    \<lparr>isOpen = True, candidateId = candidate_id r, candidateName = viewedName r,
                     cvContent = [], modal_loading = True, modal_error = []\<rparr>,
                  cvRequests := cvRequests st @ [candidate_id r]\<rparr>
      in case outcome of
           Inr response \<Rightarrow>
             st1\<lparr>cvModal := (cvModal st1)\<lparr>cvContent := cv_content response,
                                            modal_loading := False\<rparr>\<rparr>
         | Inl err \<Rightarrow>
             st1\<lparr>cvModal := (cvModal st1)
                  \<lparr>modal_loading := False,
                   modal_error := detail_or (failure_detail err) ''Failed to load CV content''\<rparr>\<rparr>)"

definition closeModal :: "SearchResults \<Rightarrow> SearchResults" where
  "closeModal st = st\<lparr>cvModal := closedModal\<rparr>"

text \<open>
  What a recruiter can do on the result list: change a sort or filter control, press
  View Details on a result, close the modal, or press Express Interest (an alert only).
\<close>

datatype SearchResultsEvent =
    SetSortBy SortBy
  | SetSortOrder SortOrder
  | SetMinSimilarity int
  | SetExperienceFilter string
  | ViewDetails "api_failure + CandidateCVResponse" SearchResult
  | CloseModal
  | ExpressInterest SearchResult

fun SearchResults_step :: "SearchResultsEvent \<Rightarrow> SearchResults \<Rightarrow> SearchResults" where
  "SearchResults_step (SetSortBy v) st = st\<lparr>sortBy := v\<rparr>"
| "SearchResults_step (SetSortOrder v) st = st\<lparr>sortOrder := v\<rparr>"
| "SearchResults_step (SetMinSimilarity v) st = st\<lparr>minSimilarity := v\<rparr>"
| "SearchResults_step (SetExperienceFilter v) st = st\<lparr>experienceFilter := v\<rparr>"
| "SearchResults_step (ViewDetails outcome r) st = handleViewDetails outcome r st"
| "SearchResults_step CloseModal st = closeModal st"
| "SearchResults_step (ExpressInterest r) st = st"

text \<open>
  A result as the search endpoint returns it before enrichment: id, score and experience
  level, the optional name, email and skill fields absent.
\<close>

definition bare_result :: "string \<Rightarrow> real \<Rightarrow> string option \<Rightarrow> SearchResult" where
  "bare_result cid score level =
     \<lparr>candidate_id = cid, similarity_score = score, first_name = None, last_name = None,
      email = None, matched_skills = None, experience_level = level\<rparr>"

section \<open>API layer (unnamed/part\_008)\<close>

text \<open>The requests of \<open>authApi\<close>, with the body fields in the order of the source.\<close>

datatype api_request =
    PostLogin string string
  | PostRegisterCandidate string string string string
  | PostRegisterRecruiter string string string string
  | GetCurrentUser

text \<open>
  What the authentication forms act on outside their own state: the browser's
  \<open>localStorage\<close> and \<open>window.location.href\<close>, the requests sent (each with the bearer
  token the request interceptor attached, oldest first), the calls of the \<open>login\<close>
  function of \<open>useAuth\<close> (token and user) and the number of \<open>onSuccess\<close> calls.
  \<open>login\<close> belongs to the AuthContext, whose source is not part of the development; its
  calls are recorded, not interpreted.
\<close>

record AuthWorld =
  localStorage :: "string \<rightharpoonup> string"
  location_href :: string
  sentRequests :: "(string option \<times> api_request) list"
  loginCalls :: "(string \<times> User) list"
  onSuccessCalls :: nat

text \<open>
  The request interceptor: \<open>Authorization: Bearer token\<close> when \<open>access_token\<close> is
  stored and not empty.
\<close>

definition bearer :: "AuthWorld \<Rightarrow> string option" where
  "bearer w =
     (case localStorage w ''access_token'' of
        None \<Rightarrow> None
      | Some t \<Rightarrow> if t = [] then None else Some t)"

definition send :: "api_request \<Rightarrow> AuthWorld \<Rightarrow> AuthWorld" where
  "send r w = w\<lparr>sentRequests := sentRequests w @ [(bearer w, r)]\<rparr>"

text \<open>
  The response interceptor on a rejected request: status 401 removes the stored token and
  user and sends the browser to the login page.
\<close>

definition rejected :: "api_failure \<Rightarrow> AuthWorld \<Rightarrow> AuthWorld" where
  "rejected err w =
     (if failure_status err = Some 401 then
        w\<lparr>localStorage := (localStorage w)(''access_token'' := None, ''user'' := None),
          location_href := ''/login''\<rparr>
      else w)"

definition storeToken :: "string \<Rightarrow> AuthWorld \<Rightarrow> AuthWorld" where
  "storeToken t w = w\<lparr>localStorage := (localStorage w)(''access_token'' \<mapsto> t)\<rparr>"

text \<open>A browser with nothing stored and nothing sent, and a request that got no response.\<close>

definition fresh_browser :: AuthWorld where
  "fresh_browser =
     \<lparr>localStorage = Map.empty, location_href = ''/'', sentRequests = [], loginCalls = [],
      onSuccessCalls = 0\<rparr>"

definition no_response :: api_failure where
  "no_response = \<lparr>failure_status = None, failure_detail = None\<rparr>"

section \<open>CandidateLogin (unnamed/part\_005)\<close>

record CandidateLogin =
  login_email :: string
  login_password :: string
  login_loading :: bool
  login_error :: string

text \<open>
  \<open>handleSubmit\<close>: the first argument is the outcome of \<open>authApi.login\<close>, the second
  the outcome of \<open>authApi.getCurrentUser\<close>, used only when that call is made.
\<close>

definition CandidateLogin_handleSubmit ::
  "api_failure + AuthResponse \<Rightarrow> api_failure + User \<Rightarrow> CandidateLogin \<Rightarrow> AuthWorld
     \<Rightarrow> CandidateLogin \<times> AuthWorld" where
  "CandidateLogin_handleSubmit loginOutcome userOutcome s w =
     (let s1 = s\<lparr>login_loading := True, login_error := []\<rparr>;
          w1 = send (PostLogin (login_email s) (login_password s)) w;
          failure = (\<lambda>err. detail_or (failure_detail err)
                              ''Login failed. Please check your credentials.'')
      in case loginOutcome of
           Inl err \<Rightarrow>
             (s1\<lparr>login_error := failure err, login_loading := False\<rparr>, rejected err w1)
         | Inr response \<Rightarrow>
             if user_role response \<noteq> candidate then
               (s1\<lparr>login_error := ''Invalid credentials for candidate login'',
                   login_loading := False\<rparr>, w1)
             else
               (let w2 = send GetCurrentUser (storeToken (access_token response) w1)
                in case userOutcome of
                     Inl err \<Rightarrow>
                       (s1\<lparr>login_error := failure err, login_loading := False\<rparr>,
                        rejected err w2)
                   | Inr user \<Rightarrow>
                       (s1\<lparr>login_loading := False\<rparr>,
                        w2\<lparr>loginCalls := loginCalls w2 @ [(access_token response, user)],
                           onSuccessCalls := Suc (onSuccessCalls w2)\<rparr>)))"

section \<open>CandidateRegister and RecruiterRegister\<close>

record CandidateRegister =
  cr_email :: string
  cr_password :: string
  cr_confirmPassword :: string
  cr_first_name :: string
  cr_last_name :: string
  cr_loading :: bool
  cr_error :: string

record RecruiterRegister =
  rr_email :: string
  rr_password :: string
  rr_confirmPassword :: string
  rr_company_name :: string
  rr_job_title :: string
  rr_loading :: bool
  rr_error :: string

text \<open>
  Both \<open>handleSubmit\<close> functions: the first argument is the outcome of the registration
  call, the second the outcome of \<open>authApi.getCurrentUser\<close>; each is used only when
  its call is made. \<open>password.length\<close> counts code units.
\<close>

definition CandidateRegister_handleSubmit ::
  "api_failure + AuthResponse \<Rightarrow> api_failure + User \<Rightarrow> CandidateRegister \<Rightarrow> AuthWorld
     \<Rightarrow> CandidateRegister \<times> AuthWorld" where
  "CandidateRegister_handleSubmit registerOutcome userOutcome s w =
     (if cr_password s \<noteq> cr_confirmPassword s then
        (s\<lparr>cr_error := ''Passwords do not match''\<rparr>, w)
      else if length (cr_password s) < 8 then
        (s\<lparr>cr_error := ''Password must be at least 8 characters long''\<rparr>, w)
      else
        (let s1 = s\<lparr>cr_loading := True, cr_error := []\<rparr>;
             w1 = send (PostRegisterCandidate (cr_email s) (cr_password s)
                          (cr_first_name s) (cr_last_name s)) w;
             failure = (\<lambda>err. detail_or (failure_detail err)
                                 ''Registration failed. Please try again.'')
         in case registerOutcome of
              Inl err \<Rightarrow> (s1\<lparr>cr_error := failure err, cr_loading := False\<rparr>, rejected err w1)
            | Inr response \<Rightarrow>
                (let w2 = send GetCurrentUser (storeToken (access_token response) w1)
                 in case userOutcome of
                      Inl err \<Rightarrow>
                        (s1\<lparr>cr_error := failure err, cr_loading := False\<rparr>, rejected err w2)
                    | Inr user \<Rightarrow>
                        (s1\<lparr>cr_loading := False\<rparr>,
                         w2\<lparr>loginCalls := loginCalls w2 @ [(access_token response, user)],
                            onSuccessCalls := Suc (onSuccessCalls w2)\<rparr>))))"

definition RecruiterRegister_handleSubmit ::
  "api_failure + AuthResponse \<Rightarrow> api_failure + User \<Rightarrow> RecruiterRegister \<Rightarrow> AuthWorld
     \<Rightarrow> RecruiterRegister \<times> AuthWorld" where
  "RecruiterRegister_handleSubmit registerOutcome userOutcome s w =
     (if rr_password s \<noteq> rr_confirmPassword s then
        (s\<lparr>rr_error := ''Passwords do not match''\<rparr>, w)
      else if length (rr_password s) < 8 then
        (s\<lparr>rr_error := ''Password must be at least 8 characters long''\<rparr>, w)
      else
        (let s1 = s\<lparr>rr_loading := True, rr_error := []\<rparr>;
             w1 = send (PostRegisterRecruiter (rr_email s) (rr_password s)
                          (rr_company_name s) (rr_job_title s)) w;
             failure = (\<lambda>err. detail_or (failure_detail err)
                                 ''Registration failed. Please try again.'')
         in case registerOutcome of
              Inl err \<Rightarrow> (s1\<lparr>rr_error := failure err, rr_loading := False\<rparr>, rejected err w1)
            | Inr response \<Rightarrow>
                (let w2 = send GetCurrentUser (storeToken (access_token response) w1)
                 in case userOutcome of
                      Inl err \<Rightarrow>
                        (s1\<lparr>rr_error := failure err, rr_loading := False\<rparr>, rejected err w2)
                    | Inr user \<Rightarrow>
                        (s1\<lparr>rr_loading := False\<rparr>,
                         w2\<lparr>loginCalls := loginCalls w2 @ [(access_token response, user)],
                            onSuccessCalls := Suc (onSuccessCalls w2)\<rparr>))))"

section \<open>SearchOrchestrator and CV detail (backend)\<close>

text \<open>
  Modelled from the spec: the search endpoint behind \<open>recruiterApi.search\<close> and the
  CV-detail endpoint behind \<open>recruiterApi.getCandidateCV\<close> are backend code (the
  SearchOrchestrator of section 4.3 and the endpoint of section 6) that src/ does not
  contain; only their callers and the types of their requests and responses are there.
  The definitions of this section follow the words of sections 3, 4.3 and 6 of the
  specification.
\<close>

text \<open>
  Modelled from the spec: \<open>cv_processing_status\<close> of a CandidateProfile, one of none,
  pending, processing, completed, failed (section 3).
\<close>

datatype profile_status =
  status_none | status_pending | status_processing | status_completed | status_failed

text \<open>
  Modelled from the spec: the CandidateProfile row of the ProfileStore (section 3):
  identity, contact fields, processing status and the nullable vector key.
\<close>

record CandidateProfile =
  profile_id :: string
  profile_first_name :: string
  profile_last_name :: string
  profile_email :: string
  profile_status :: profile_status
  vector_key :: "string option"

text \<open>
  Modelled from the spec: the score of an index answer, \<open>score: float[0,1]\<close>
  (section 6): a number from 0 to 1.
\<close>

typedef unit_score = "{x :: real. 0 \<le> x \<and> x \<le> 1}"
  by (rule exI [of _ 0]) simp

text \<open>
  Modelled from the spec: one entry of the vector index's answer,
  \<open>(key, score, metadata)\<close>, the metadata being the experience level and the coarse
  skill tags (sections 3 and 6).
\<close>

record IndexHit =
  hit_key :: string
  hit_score :: unit_score
  hit_experience_level :: "string option"
  hit_skill_tags :: "string list"

text \<open>
  Modelled from the spec: what the backend holds besides the vector index: the rows of
  the ProfileStore, and for each candidate id the full text extracted from the CV, which
  is what the CV-detail endpoint returns (section 6).
\<close>

record Backend =
  profiles :: "CandidateProfile list"
  extracted_text :: "string \<rightharpoonup> string"

text \<open>
  Modelled from the spec: the two ways a search fails (sections 4.3 and 7): a rejected
  request, and the retryable failure of the embedder or of the vector index.
\<close>

datatype search_failure = ValidationError | RetryableError

text \<open>
  Modelled from the spec: step 1, \<open>clamp limit to a bounded range (e.g., 1-50)\<close>. The
  specification names the range by example only, so its two ends are parameters.
\<close>

definition clampLimit :: "nat \<Rightarrow> nat \<Rightarrow> int \<Rightarrow> nat" where
  "clampLimit lo hi l = nat (max (int lo) (min (int hi) l))"

text \<open>
  Modelled from the spec: steps 4 and 5. The owner of a hit is the profile whose vector
  key is the hit's key; the hit is dropped when no profile owns it or the owner's status
  is not completed, and otherwise enriched with the owner's name and email.
\<close>

definition resolveHit :: "Backend \<Rightarrow> IndexHit \<Rightarrow> SearchResult option" where
  "resolveHit b h =
     (case find (\<lambda>p. vector_key p = Some (hit_key h)) (profiles b) of
        None \<Rightarrow> None
      | Some p \<Rightarrow>
          if profile_status p \<noteq> status_completed then None
          else Some \<lparr>candidate_id = profile_id p,
                     similarity_score = Rep_unit_score (hit_score h),
                     first_name = Some (profile_first_name p),
                     last_name = Some (profile_last_name p),
                     email = Some (profile_email p),
                     matched_skills = Some (hit_skill_tags h),
                     experience_level = hit_experience_level h\<rparr>)"

text \<open>
  Modelled from the spec: step 6, \<open>re-rank surviving hits by score descending (ties
  broken by candidate id ascending)\<close>.
\<close>

definition rerank :: "SearchResult list \<Rightarrow> SearchResult list" where
  "rerank rs = sort_key (\<lambda>r. (- similarity_score r, candidate_id r)) rs"

text \<open>
  Modelled from the spec: the contract \<open>search(recruiterId, requirements, filters, limit)\<close>
  of section 4.3; the recruiter id plays no part in the steps. The first two arguments
  are the ends of the limit's range; the embedder and the index query are the external
  collaborators (\<open>None\<close> when they fail). Empty requirements are rejected, the limit is
  clamped, the index is asked for the top \<open>limit\<close> hits, the hits are resolved,
  re-ranked and truncated to \<open>limit\<close>.
\<close>

definition SearchOrchestrator_search ::
  "nat \<Rightarrow> nat
     \<Rightarrow> (string \<Rightarrow> real list option)
     \<Rightarrow> (real list \<Rightarrow> nat \<Rightarrow> (string \<rightharpoonup> string) \<Rightarrow> IndexHit list option)
     \<Rightarrow> Backend
     \<Rightarrow> string \<Rightarrow> (string \<rightharpoonup> string) \<Rightarrow> int \<Rightarrow> search_failure + SearchResult list" where
  "SearchOrchestrator_search lo hi embedder index_query b reqs fs requested =
     (if reqs = [] then Inl ValidationError
      else
        (let k = clampLimit lo hi requested in
         case embedder reqs of
           None \<Rightarrow> Inl RetryableError
         | Some vec \<Rightarrow>
             (case index_query vec k fs of
                None \<Rightarrow> Inl RetryableError
              | Some hits \<Rightarrow> Inr (take k (rerank (List.map_filter (resolveHit b) hits))))))"

text \<open>
  Modelled from the spec: the CV-detail endpoint of section 6,
  \<open>(candidate_id) -> full extracted text\<close>, callable only by an authenticated recruiter
  and only for a candidate whose status is completed; \<open>None\<close> when it refuses.
\<close>

definition cv_detail :: "Backend \<Rightarrow> bool \<Rightarrow> string \<Rightarrow> string option" where
  "cv_detail b authenticated_recruiter cid =
     (if \<not> authenticated_recruiter then None
      else
        (case find (\<lambda>p. profile_id p = cid) (profiles b) of
           None \<Rightarrow> None
         | Some p \<Rightarrow>
             if profile_status p \<noteq> status_completed then None else extracted_text b cid))"

text \<open>
  An index holding three vectors, answering every query with its \<open>k\<close> best hits, and a
  backend with the profiles that own them and their CV texts; the second profile is being
  re-processed.
\<close>

definition example_hits :: "IndexHit list" where
  "example_hits =
     [\<lparr>hit_key = ''k1'', hit_score = Abs_unit_score (9 / 10),
       hit_experience_level = Some ''senior'', hit_skill_tags = [''python'']\<rparr>,
      \<lparr>hit_key = ''k2'', hit_score = Abs_unit_score (8 / 10),
       hit_experience_level = None, hit_skill_tags = []\<rparr>,
      \<lparr>hit_key = ''k3'', hit_score = Abs_unit_score (7 / 10),
       hit_experience_level = Some ''mid'', hit_skill_tags = [''sql'']\<rparr>]"

definition example_query :: "real list \<Rightarrow> nat \<Rightarrow> (string \<rightharpoonup> string) \<Rightarrow> IndexHit list option" where
  "example_query vec k fs = Some (take k example_hits)"

definition example_backend :: Backend where
  "example_backend =
     \<lparr>profiles =
        [\<lparr>profile_id = ''c1'', profile_first_name = ''Ada'', profile_last_name = ''Byron'',
          profile_email = ''ada@example.org'', profile_status = status_completed,
          vector_key = Some ''k1''\<rparr>,
         \<lparr>profile_id = ''c2'', profile_first_name = ''Bob'', profile_last_name = ''Cole'',
          profile_email = ''bob@example.org'', profile_status = status_processing,
          vector_key = Some ''k2''\<rparr>,
         \<lparr>profile_id = ''c3'', profile_first_name = ''Cyd'', profile_last_name = ''Dane'',
          profile_email = ''cyd@example.org'', profile_status = status_completed,
          vector_key = Some ''k3''\<rparr>],
      extracted_text =
        [''c1'' \<mapsto> ''Ada Byron. Ten years of Python.'',
         ''c3'' \<mapsto> ''Cyd Dane. Five years of SQL.'']\<rparr>"

section \<open>Upload validation\<close>

text \<open>
  C1. A file is accepted iff its MIME type is one of the three allowed types (PDF, DOC,
  DOCX) and its size is at most 10 MiB (10485760 bytes): then \<open>handleFileSelect\<close>
  selects it without an error, and the next \<open>handleUpload\<close> sends exactly that file.
  For a file violating either condition \<open>handleFileSelect\<close> sets a validation message,
  sets the selected file to null and makes no upload request, and a following
  \<open>handleUpload\<close> makes none either.
\<close>

theorem handleFileSelect_accepts_iff_valid:
  "((selectedFile (handleFileSelect (Some f) s) = Some f) =
      (file_type f \<in> {''application/pdf'', ''application/msword'',
         ''application/vnd.openxmlformats-officedocument.wordprocessingml.document''}
       \<and> file_size f \<le> 10485760))
   \<and> (file_type f \<in> set allowedTypes \<and> file_size f \<le> maxFileSize \<longrightarrow>
        upload_error (handleFileSelect (Some f) s) = [] \<and>
        uploadRequests (handleFileSelect (Some f) s) = uploadRequests s \<and>
        uploadRequests (handleUpload outcome (handleFileSelect (Some f) s))
          = uploadRequests s @ [f])
   \<and> (\<not> (file_type f \<in> set allowedTypes \<and> file_size f \<le> maxFileSize) \<longrightarrow>
        upload_error (handleFileSelect (Some f) s) \<noteq> [] \<and>
        selectedFile (handleFileSelect (Some f) s) = None \<and>
        uploadRequests (handleFileSelect (Some f) s) = uploadRequests s \<and>
        uploadRequests (handleUpload outcome (handleFileSelect (Some f) s))
          = uploadRequests s)"
  by (auto simp: handleFileSelect_def handleUpload_def allowedTypes_def maxFileSize_def Let_def
      split: sum.splits option.splits)

theorem handleFileSelect_accepts_iff_valid_witness:
  "selectedFile (handleFileSelect
       (Some \<lparr>file_name = ''cv.pdf'', file_type = ''application/pdf'', file_size = 10485760\<rparr>)
       CVUpload_initial)
     = Some \<lparr>file_name = ''cv.pdf'', file_type = ''application/pdf'', file_size = 10485760\<rparr>
   \<and> uploadRequests (handleUpload (Inr ''ok'') (handleFileSelect
       (Some \<lparr>file_name = ''cv.pdf'', file_type = ''application/pdf'', file_size = 10485760\<rparr>)
       CVUpload_initial))
     = [\<lparr>file_name = ''cv.pdf'', file_type = ''application/pdf'', file_size = 10485760\<rparr>]
   \<and> selectedFile (handleFileSelect
       (Some \<lparr>file_name = ''cv.pdf'', file_type = ''application/pdf'', file_size = 10485761\<rparr>)
       CVUpload_initial) = None
   \<and> upload_error (handleFileSelect
       (Some \<lparr>file_name = ''cv.pdf'', file_type = ''application/pdf'', file_size = 10485761\<rparr>)
       CVUpload_initial) = ''File size must be less than 10MB''
   \<and> uploadRequests (handleUpload (Inr ''ok'') (handleFileSelect
       (Some \<lparr>file_name = ''cv.pdf'', file_type = ''application/pdf'', file_size = 10485761\<rparr>)
       CVUpload_initial)) = []
   \<and> selectedFile (handleFileSelect
       (Some \<lparr>file_name = ''cv.pdf'', file_type = ''image/png'', file_size = 1024\<rparr>)
       CVUpload_initial) = None
   \<and> upload_error (handleFileSelect
       (Some \<lparr>file_name = ''cv.pdf'', file_type = ''image/png'', file_size = 1024\<rparr>)
       CVUpload_initial) = ''Please select a PDF, DOC, or DOCX file''
   \<and> uploadRequests (handleUpload (Inr ''ok'') (handleFileSelect
       (Some \<lparr>file_name = ''cv.pdf'', file_type = ''image/png'', file_size = 1024\<rparr>)
       CVUpload_initial)) = []"
  using
    handleFileSelect_accepts_iff_valid
      [of "\<lparr>file_name = ''cv.pdf'', file_type = ''application/pdf'', file_size = 10485760\<rparr>"
          CVUpload_initial "Inr ''ok''"]
    handleFileSelect_accepts_iff_valid
      [of "\<lparr>file_name = ''cv.pdf'', file_type = ''application/pdf'', file_size = 10485761\<rparr>"
          CVUpload_initial "Inr ''ok''"]
    handleFileSelect_accepts_iff_valid
      [of "\<lparr>file_name = ''cv.pdf'', file_type = ''image/png'', file_size = 1024\<rparr>"
          CVUpload_initial "Inr ''ok''"]
  by (simp add: allowedTypes_def maxFileSize_def CVUpload_initial_def handleFileSelect_def)

section \<open>The search form\<close>

lemma trim_empty_iff: "(trim s = []) = (\<forall>c \<in> set s. isWhiteSpace c)"
proof
  assume "trim s = []"
  then have all: "\<forall>c \<in> set (dropWhile isWhiteSpace s). isWhiteSpace c"
    by (simp add: trim_def dropWhile_eq_Nil_conv)
  have "dropWhile isWhiteSpace s = []"
  proof (rule ccontr)
    assume ne: "dropWhile isWhiteSpace s \<noteq> []"
    then have "\<not> isWhiteSpace (hd (dropWhile isWhiteSpace s))"
      by (rule hd_dropWhile)
    moreover from ne have "hd (dropWhile isWhiteSpace s) \<in> set (dropWhile isWhiteSpace s)"
      by simp
    ultimately show False using all by blast
  qed
  then show "\<forall>c \<in> set s. isWhiteSpace c"
    by (simp add: dropWhile_eq_Nil_conv)
next
  assume "\<forall>c \<in> set s. isWhiteSpace c"
  then have d: "dropWhile isWhiteSpace s = []"
    by (simp add: dropWhile_eq_Nil_conv)
  show "trim s = []"
    unfolding trim_def d by simp
qed

text \<open>
  C4. When the requirements text is empty or consists only of white space,
  \<open>handleSearch\<close> sets the error message and changes nothing else: no request is handed
  to \<open>recruiterApi.search\<close>, \<open>onSearchResults\<close> is not called, and the form data, the
  \<open>searching\<close> flag and the advanced-filter toggle keep their values.
\<close>

theorem handleSearch_rejects_blank:
  assumes "\<forall>c \<in> set (requirements (searchData s)). isWhiteSpace c"
  shows "handleSearch outcome s = s\<lparr>search_error := ''Please enter job requirements''\<rparr>
    \<and> search_error (handleSearch outcome s) \<noteq> []
    \<and> searchRequests (handleSearch outcome s) = searchRequests s
    \<and> onSearchResultsCalls (handleSearch outcome s) = onSearchResultsCalls s"
proof -
  from assms have "trim (requirements (searchData s)) = []"
    by (simp add: trim_empty_iff)
  then show ?thesis
    by (simp add: handleSearch_def)
qed

theorem handleSearch_rejects_blank_witness:
  "search_error (handleSearch (Inr \<lparr>results = [], total_results = 0, query_processed = [],
        search_time_ms = None\<rparr>)
      (handleRequirementsChange [CHR 0x20, CHR 0x09, CHR 0x0A] SearchInterface_initial))
     = ''Please enter job requirements''
   \<and> searchRequests (handleSearch (Inr \<lparr>results = [], total_results = 0, query_processed = [],
        search_time_ms = None\<rparr>)
      (handleRequirementsChange [CHR 0x20, CHR 0x09, CHR 0x0A] SearchInterface_initial)) = []"
proof -
  have blank: "\<forall>c \<in> set (requirements (searchData
      (handleRequirementsChange [CHR 0x20, CHR 0x09, CHR 0x0A] SearchInterface_initial))).
      isWhiteSpace c"
    by (simp add: handleRequirementsChange_def isWhiteSpace_def)
  show ?thesis
    using handleSearch_rejects_blank [OF blank]
    by (simp add: handleRequirementsChange_def SearchInterface_initial_def)
qed

lemma parseInt_limitOptions:
  "map parseInt limitOptions = map Some [3, 5, 10, 15, 20, 25, 30, 40, 50]"
  by code_simp

lemma parseInt_limit_option:
  assumes "v \<in> set limitOptions"
  shows "parseInt v \<in> Some ` {3, 5, 10, 15, 20, 25, 30, 40, 50}"
proof -
  from assms have "parseInt v \<in> set (map parseInt limitOptions)"
    by simp
  then show ?thesis
    unfolding parseInt_limitOptions by auto
qed

text \<open>
  The invariant of the form: the limit of the form data, and of every request already
  handed to \<open>recruiterApi.search\<close>, is one of the nine selectable numbers.
\<close>

lemma reachable_limit_selectable:
  assumes "reachable s"
  shows "limit (searchData s) \<in> Some ` {3, 5, 10, 15, 20, 25, 30, 40, 50}
    \<and> (\<forall>q \<in> set (searchRequests s). limit q \<in> Some ` {3, 5, 10, 15, 20, 25, 30, 40, 50})"
  using assms
proof (induction rule: reachable.induct)
  case initial
  show ?case by (simp add: SearchInterface_initial_def)
next
  case (requirements_change s v)
  then show ?case by (simp add: handleRequirementsChange_def)
next
  case (filter_change s k v)
  then show ?case by (simp add: handleFilterChange_def)
next
  case (limit_change s v)
  from limit_change.hyps(2) have "parseInt v \<in> Some ` {3, 5, 10, 15, 20, 25, 30, 40, 50}"
    by (rule parseInt_limit_option)
  with limit_change.IH show ?case by (simp add: handleLimitChange_def)
next
  case (toggle s)
  then show ?case by (simp add: toggleAdvanced_def)
next
  case (search s outcome)
  then show ?case
    by (cases outcome) (auto simp: handleSearch_def Let_def)
next
  case (save s prompted saved)
  then show ?case
    by (cases saved) (auto simp: handleSaveSearch_def Let_def split: option.splits)
qed

text \<open>
  C5. The form starts with limit 10; the selectable limits are 3, 5, 10, 15, 20, 25, 30,
  40 and 50; and in every state the form can reach, its limit is one of these nine
  numbers and every search request it has constructed carries a limit between 1 and 50.
\<close>

theorem search_limit_bounded:
  "limit (searchData SearchInterface_initial) = Some 10
   \<and> map parseInt limitOptions = map Some [3, 5, 10, 15, 20, 25, 30, 40, 50]
   \<and> (reachable s \<longrightarrow>
        (\<exists>l. limit (searchData s) = Some l \<and> l \<in> {3, 5, 10, 15, 20, 25, 30, 40, 50})
        \<and> (\<forall>q \<in> set (searchRequests s). \<exists>l. limit q = Some l \<and> 1 \<le> l \<and> l \<le> 50))"
proof (intro conjI impI)
  show "limit (searchData SearchInterface_initial) = Some 10"
    by (simp add: SearchInterface_initial_def)
  show "map parseInt limitOptions = map Some [3, 5, 10, 15, 20, 25, 30, 40, 50]"
    by (rule parseInt_limitOptions)
next
  assume r: "reachable s"
  from reachable_limit_selectable [OF r]
  show "\<exists>l. limit (searchData s) = Some l \<and> l \<in> {3, 5, 10, 15, 20, 25, 30, 40, 50}"
    by auto
next
  assume r: "reachable s"
  show "\<forall>q \<in> set (searchRequests s). \<exists>l. limit q = Some l \<and> 1 \<le> l \<and> l \<le> 50"
  proof
    fix q assume "q \<in> set (searchRequests s)"
    with reachable_limit_selectable [OF r]
    have "limit q \<in> Some ` {3, 5, 10, 15, 20, 25, 30, 40, 50}" by blast
    then show "\<exists>l. limit q = Some l \<and> 1 \<le> l \<and> l \<le> 50" by auto
  qed
qed

theorem search_limit_bounded_witness:
  "reachable
     (handleSearch (Inl no_response)
       (handleLimitChange ''50'' (handleRequirementsChange ''python'' SearchInterface_initial)))
   \<and> (\<exists>l. limit (searchData
     (handleSearch (Inl no_response)
       (handleLimitChange ''50'' (handleRequirementsChange ''python'' SearchInterface_initial))))
        = Some l \<and> l \<in> {3, 5, 10, 15, 20, 25, 30, 40, 50})
   \<and> (\<exists>q. q \<in> set (searchRequests
     (handleSearch (Inl no_response)
       (handleLimitChange ''50'' (handleRequirementsChange ''python'' SearchInterface_initial))))
        \<and> (\<exists>l. limit q = Some l \<and> 1 \<le> l \<and> l \<le> 50))"
proof -
  have r: "reachable
     (handleSearch (Inl no_response)
       (handleLimitChange ''50'' (handleRequirementsChange ''python'' SearchInterface_initial)))"
    by (intro reachable.search reachable.limit_change reachable.requirements_change
        reachable.initial) (simp add: limitOptions_def)
  have q: "searchData (handleLimitChange ''50''
        (handleRequirementsChange ''python'' SearchInterface_initial))
      \<in> set (searchRequests
     (handleSearch (Inl no_response)
       (handleLimitChange ''50'' (handleRequirementsChange ''python'' SearchInterface_initial))))"
    by (simp add: handleSearch_def handleLimitChange_def handleRequirementsChange_def
        trim_def isWhiteSpace_def Let_def)
  from search_limit_bounded
    [of "(handleSearch (Inl no_response)
       (handleLimitChange ''50'' (handleRequirementsChange ''python'' SearchInterface_initial)))"] r q
  show ?thesis by blast
qed

section \<open>Login and registration\<close>

text \<open>
  C8. When the login response carries a role other than \<open>candidate\<close>, \<open>handleSubmit\<close>
  of CandidateLogin sets the error and returns: the token is not stored (\<open>localStorage\<close>
  is unchanged), \<open>login\<close> and \<open>onSuccess\<close> are not called, the browser stays where it
  is, and the only request sent is the login request itself.
\<close>

theorem CandidateLogin_rejects_other_roles:
  assumes "user_role response \<noteq> candidate"
  shows "login_error (fst (CandidateLogin_handleSubmit (Inr response) userOutcome s w))
           = ''Invalid credentials for candidate login''
    \<and> login_loading (fst (CandidateLogin_handleSubmit (Inr response) userOutcome s w)) = False
    \<and> localStorage (snd (CandidateLogin_handleSubmit (Inr response) userOutcome s w))
           = localStorage w
    \<and> loginCalls (snd (CandidateLogin_handleSubmit (Inr response) userOutcome s w))
           = loginCalls w
    \<and> onSuccessCalls (snd (CandidateLogin_handleSubmit (Inr response) userOutcome s w))
           = onSuccessCalls w
    \<and> location_href (snd (CandidateLogin_handleSubmit (Inr response) userOutcome s w))
           = location_href w
    \<and> sentRequests (snd (CandidateLogin_handleSubmit (Inr response) userOutcome s w))
           = sentRequests w @ [(bearer w, PostLogin (login_email s) (login_password s))]"
  using assms by (simp add: CandidateLogin_handleSubmit_def Let_def send_def)

theorem CandidateLogin_rejects_other_roles_witness:
  "login_error (fst (CandidateLogin_handleSubmit
       (Inr \<lparr>access_token = ''t1'', token_type = ''bearer'', expires_in = 3600,
             user_id = ''u1'', user_role = recruiter\<rparr>)
       (Inl no_response)
       \<lparr>login_email = ''r@example.org'', login_password = ''secret'', login_loading = False,
        login_error = []\<rparr>
       fresh_browser))
     = ''Invalid credentials for candidate login''
   \<and> localStorage (snd (CandidateLogin_handleSubmit
       (Inr \<lparr>access_token = ''t1'', token_type = ''bearer'', expires_in = 3600,
             user_id = ''u1'', user_role = recruiter\<rparr>)
       (Inl no_response)
       \<lparr>login_email = ''r@example.org'', login_password = ''secret'', login_loading = False,
        login_error = []\<rparr>
       fresh_browser)) ''access_token'' = None
   \<and> loginCalls (snd (CandidateLogin_handleSubmit
       (Inr \<lparr>access_token = ''t1'', token_type = ''bearer'', expires_in = 3600,
             user_id = ''u1'', user_role = recruiter\<rparr>)
       (Inl no_response)
       \<lparr>login_email = ''r@example.org'', login_password = ''secret'', login_loading = False,
        login_error = []\<rparr>
       fresh_browser)) = []
   \<and> map snd (sentRequests (snd (CandidateLogin_handleSubmit
       (Inr \<lparr>access_token = ''t1'', token_type = ''bearer'', expires_in = 3600,
             user_id = ''u1'', user_role = recruiter\<rparr>)
       (Inl no_response)
       \<lparr>login_email = ''r@example.org'', login_password = ''secret'', login_loading = False,
        login_error = []\<rparr>
       fresh_browser)))
     = [PostLogin ''r@example.org'' ''secret'']"
proof -
  have other: "user_role \<lparr>access_token = ''t1'', token_type = ''bearer'', expires_in = 3600,
             user_id = ''u1'', user_role = recruiter\<rparr> \<noteq> candidate"
    by simp
  show ?thesis
    using CandidateLogin_rejects_other_roles [OF other]
    by (simp add: fresh_browser_def)
qed

text \<open>
  C9. In both registration forms, when the password differs from the confirmation field or
  is shorter than 8, \<open>handleSubmit\<close> sets an error message and changes nothing else:
  no request is sent, nothing is stored and \<open>login\<close> is not called. So a request is
  sent only when the two fields are equal and the password has length at least 8; and then
  the registration request is the first request sent.
\<close>

theorem register_requires_valid_password:
  "(cr_password s \<noteq> cr_confirmPassword s \<or> length (cr_password s) < 8 \<longrightarrow>
      (\<exists>msg. msg \<noteq> [] \<and>
         CandidateRegister_handleSubmit registerOutcome userOutcome s w = (s\<lparr>cr_error := msg\<rparr>, w)))
   \<and> (sentRequests (snd (CandidateRegister_handleSubmit registerOutcome userOutcome s w))
         \<noteq> sentRequests w \<longrightarrow>
       cr_password s = cr_confirmPassword s \<and> 8 \<le> length (cr_password s))
   \<and> (cr_password s = cr_confirmPassword s \<and> 8 \<le> length (cr_password s) \<longrightarrow>
       take (Suc (length (sentRequests w)))
           (sentRequests (snd (CandidateRegister_handleSubmit registerOutcome userOutcome s w)))
         = sentRequests w @ [(bearer w, PostRegisterCandidate (cr_email s) (cr_password s)
                                 (cr_first_name s) (cr_last_name s))])
   \<and> (rr_password t \<noteq> rr_confirmPassword t \<or> length (rr_password t) < 8 \<longrightarrow>
      (\<exists>msg. msg \<noteq> [] \<and>
         RecruiterRegister_handleSubmit registerOutcome userOutcome t w = (t\<lparr>rr_error := msg\<rparr>, w)))
   \<and> (sentRequests (snd (RecruiterRegister_handleSubmit registerOutcome userOutcome t w))
         \<noteq> sentRequests w \<longrightarrow>
       rr_password t = rr_confirmPassword t \<and> 8 \<le> length (rr_password t))
   \<and> (rr_password t = rr_confirmPassword t \<and> 8 \<le> length (rr_password t) \<longrightarrow>
       take (Suc (length (sentRequests w)))
           (sentRequests (snd (RecruiterRegister_handleSubmit registerOutcome userOutcome t w)))
         = sentRequests w @ [(bearer w, PostRegisterRecruiter (rr_email t) (rr_password t)
                                 (rr_company_name t) (rr_job_title t))])"
proof -
  have sent_rejected [simp]: "sentRequests (rejected err v) = sentRequests v" for err v
    by (simp add: rejected_def)
  have c1: "cr_password s \<noteq> cr_confirmPassword s \<or> length (cr_password s) < 8 \<longrightarrow>
      (\<exists>msg. msg \<noteq> [] \<and>
         CandidateRegister_handleSubmit registerOutcome userOutcome s w = (s\<lparr>cr_error := msg\<rparr>, w))"
    by (auto simp: CandidateRegister_handleSubmit_def)
  have c2: "sentRequests (snd (CandidateRegister_handleSubmit registerOutcome userOutcome s w))
         \<noteq> sentRequests w \<longrightarrow>
       cr_password s = cr_confirmPassword s \<and> 8 \<le> length (cr_password s)"
    by (auto simp: CandidateRegister_handleSubmit_def)
  have c3: "cr_password s = cr_confirmPassword s \<and> 8 \<le> length (cr_password s) \<longrightarrow>
       take (Suc (length (sentRequests w)))
           (sentRequests (snd (CandidateRegister_handleSubmit registerOutcome userOutcome s w)))
         = sentRequests w @ [(bearer w, PostRegisterCandidate (cr_email s) (cr_password s)
                                 (cr_first_name s) (cr_last_name s))]"
    by (auto simp: CandidateRegister_handleSubmit_def Let_def send_def storeToken_def
        split: sum.splits)
  have r1: "rr_password t \<noteq> rr_confirmPassword t \<or> length (rr_password t) < 8 \<longrightarrow>
      (\<exists>msg. msg \<noteq> [] \<and>
         RecruiterRegister_handleSubmit registerOutcome userOutcome t w = (t\<lparr>rr_error := msg\<rparr>, w))"
    by (auto simp: RecruiterRegister_handleSubmit_def)
  have r2: "sentRequests (snd (RecruiterRegister_handleSubmit registerOutcome userOutcome t w))
         \<noteq> sentRequests w \<longrightarrow>
       rr_password t = rr_confirmPassword t \<and> 8 \<le> length (rr_password t)"
    by (auto simp: RecruiterRegister_handleSubmit_def)
  have r3: "rr_password t = rr_confirmPassword t \<and> 8 \<le> length (rr_password t) \<longrightarrow>
       take (Suc (length (sentRequests w)))
           (sentRequests (snd (RecruiterRegister_handleSubmit registerOutcome userOutcome t w)))
         = sentRequests w @ [(bearer w, PostRegisterRecruiter (rr_email t) (rr_password t)
                                 (rr_company_name t) (rr_job_title t))]"
    by (auto simp: RecruiterRegister_handleSubmit_def Let_def send_def storeToken_def
        split: sum.splits)
  from c1 c2 c3 r1 r2 r3 show ?thesis by blast
qed

theorem register_requires_valid_password_witness:
  "snd (CandidateRegister_handleSubmit
       (Inl \<lparr>failure_status = Some 400, failure_detail = Some ''Email already registered''\<rparr>)
       (Inl no_response)
       \<lparr>cr_email = ''c@example.org'', cr_password = ''short'', cr_confirmPassword = ''short'',
        cr_first_name = ''Ada'', cr_last_name = ''Byron'', cr_loading = False, cr_error = []\<rparr>
       fresh_browser) = fresh_browser
   \<and> snd (RecruiterRegister_handleSubmit
       (Inl \<lparr>failure_status = Some 400, failure_detail = Some ''Email already registered''\<rparr>)
       (Inl no_response)
       \<lparr>rr_email = ''r@example.org'', rr_password = ''longenough'',
        rr_confirmPassword = ''longenougj'', rr_company_name = ''Acme'',
        rr_job_title = ''Recruiter'', rr_loading = False, rr_error = []\<rparr>
       fresh_browser) = fresh_browser
   \<and> take 1 (sentRequests (snd (CandidateRegister_handleSubmit
       (Inl \<lparr>failure_status = Some 400, failure_detail = Some ''Email already registered''\<rparr>)
       (Inl no_response)
       \<lparr>cr_email = ''c@example.org'', cr_password = ''longenough'',
        cr_confirmPassword = ''longenough'', cr_first_name = ''Ada'', cr_last_name = ''Byron'',
        cr_loading = False, cr_error = []\<rparr>
       fresh_browser)))
     = [(None, PostRegisterCandidate ''c@example.org'' ''longenough'' ''Ada'' ''Byron'')]"
  using
    register_requires_valid_password
      [of "\<lparr>cr_email = ''c@example.org'', cr_password = ''short'', cr_confirmPassword = ''short'',
        cr_first_name = ''Ada'', cr_last_name = ''Byron'', cr_loading = False, cr_error = []\<rparr>"
          "Inl \<lparr>failure_status = Some 400, failure_detail = Some ''Email already registered''\<rparr>"
          "Inl no_response" fresh_browser
          "\<lparr>rr_email = ''r@example.org'', rr_password = ''longenough'',
        rr_confirmPassword = ''longenougj'', rr_company_name = ''Acme'',
        rr_job_title = ''Recruiter'', rr_loading = False, rr_error = []\<rparr>"]
    register_requires_valid_password
      [of "\<lparr>cr_email = ''c@example.org'', cr_password = ''longenough'',
        cr_confirmPassword = ''longenough'', cr_first_name = ''Ada'', cr_last_name = ''Byron'',
        cr_loading = False, cr_error = []\<rparr>"
          "Inl \<lparr>failure_status = Some 400, failure_detail = Some ''Email already registered''\<rparr>"
          "Inl no_response" fresh_browser
          "\<lparr>rr_email = ''r@example.org'', rr_password = ''longenough'',
        rr_confirmPassword = ''longenougj'', rr_company_name = ''Acme'',
        rr_job_title = ''Recruiter'', rr_loading = False, rr_error = []\<rparr>"]
  by (auto simp: bearer_def fresh_browser_def)

section \<open>Number division\<close>

text \<open>
  The rounding of \<open>number_div\<close> is rounding to nearest: \<open>floor_log2\<close> finds the
  binary exponent of a positive number, \<open>round_half_even\<close> is within one half of its
  argument, and so \<open>to_double x\<close>, a multiple of the distance \<open>ulp e\<close> between the
  doubles at the exponent \<open>e\<close> of \<open>x\<close>, is within half that distance of \<open>x\<close>.
\<close>

lemma round_half_even_near: "\<bar>of_int (round_half_even q) - q\<bar> \<le> 1 / 2"
proof -
  define f where "f = \<lfloor>q\<rfloor>"
  have "real_of_int f \<le> q" and "q < real_of_int f + 1"
    unfolding f_def by linarith+
  then show ?thesis
    unfolding round_half_even_def Let_def f_def [symmetric] by (auto simp: abs_if)
qed

lemma floorlog2_bounds_real:
  assumes "0 < n"
  shows "(2::real) ^ (floorlog 2 n - 1) \<le> real n" and "real n < 2 ^ floorlog 2 n"
proof -
  have b: "2 ^ (floorlog 2 n - 1) \<le> n \<and> n < 2 ^ floorlog 2 n"
    by (rule floorlog_bounds) (use assms in simp_all)
  from b have "real (2 ^ (floorlog 2 n - 1)) \<le> real n"
    by (simp only: of_nat_le_iff)
  then show "(2::real) ^ (floorlog 2 n - 1) \<le> real n" by simp
  from b have "real n < real (2 ^ floorlog 2 n)"
    by (simp only: of_nat_less_iff)
  then show "real n < 2 ^ floorlog 2 n" by simp
qed

lemma floor_log2_bounds:
  assumes "0 < a"
  shows "2 powi (floor_log2 a) \<le> a \<and> a < 2 powi (floor_log2 a + 1)"
proof (cases "1 \<le> a")
  case True
  define n where "n = nat \<lfloor>a\<rfloor>"
  define k where "k = floorlog 2 n"
  have n: "0 < n" using True by (simp add: n_def)
  have k: "0 < k" using n by (simp add: k_def floorlog_def)
  have na: "real n \<le> a" "a < real n + 1"
    using True unfolding n_def by linarith+
  from floorlog2_bounds_real [OF n] have lo: "(2::real) ^ (k - 1) \<le> real n"
    and hi: "real n < 2 ^ k" by (simp_all add: k_def)
  from hi have "n < 2 ^ k" by (metis of_nat_less_iff of_nat_numeral of_nat_power)
  then have "n + 1 \<le> 2 ^ k" by simp
  then have "real (n + 1) \<le> real (2 ^ k)" by (simp only: of_nat_le_iff)
  then have hi': "real n + 1 \<le> 2 ^ k" by simp
  have e: "floor_log2 a = int k - 1" using True by (simp add: floor_log2_def n_def k_def)
  have p1: "(2::real) powi (int k - 1) = 2 ^ (k - 1)"
    using k by (simp add: power_int_def nat_diff_distrib')
  have p2: "(2::real) powi (int k - 1 + 1) = 2 ^ k"
    by (simp add: power_int_def)
  show ?thesis unfolding e p1 p2 using lo hi' na by linarith
next
  case False
  define y where "y = 1 / a"
  define n where "n = nat (\<lceil>y\<rceil> - 1)"
  define k where "k = floorlog 2 n"
  from False assms have y: "1 < y" by (simp add: y_def)
  then have c: "2 \<le> \<lceil>y\<rceil>" by linarith
  then have n: "0 < n" by (simp add: n_def)
  have ny: "real n < y" "y \<le> real n + 1"
    using c unfolding n_def by linarith+
  have k: "0 < k" using n by (simp add: k_def floorlog_def)
  from floorlog2_bounds_real [OF n] have lo: "(2::real) ^ (k - 1) \<le> real n"
    and hi: "real n < 2 ^ k" by (simp_all add: k_def)
  from hi have "n < 2 ^ k" by (metis of_nat_less_iff of_nat_numeral of_nat_power)
  then have "n + 1 \<le> 2 ^ k" by simp
  then have "real (n + 1) \<le> real (2 ^ k)" by (simp only: of_nat_le_iff)
  then have hi': "real n + 1 \<le> 2 ^ k" by simp
  have e: "floor_log2 a = - int k" using False by (simp add: floor_log2_def n_def k_def y_def)
  have p1: "(2::real) powi (- int k) = 1 / 2 ^ k"
    by (simp add: power_int_def field_simps)
  have p2: "(2::real) powi (- int k + 1) = 1 / 2 ^ (k - 1)"
    using k by (cases k) (simp_all add: power_int_def field_simps nat_add_distrib)
  have ay: "1 / y = a" using assms by (simp add: y_def)
  have "y \<le> 2 ^ k" using ny hi' by linarith
  then have "1 / 2 ^ k \<le> 1 / y" using y by (simp add: frac_le)
  then have l: "1 / 2 ^ k \<le> a" unfolding ay .
  have "2 ^ (k - 1) < y" using lo ny by linarith
  then have "1 / y < 1 / 2 ^ (k - 1)" by (simp add: frac_less2)
  then have u: "a < 1 / 2 ^ (k - 1)" unfolding ay .
  from l u show ?thesis unfolding e p1 p2 by simp
qed


lemma ulp_pos: "0 < ulp e"
  by (simp add: ulp_def)

lemma ulp_powi: "ulp e = 2 powi (e - 52)"
  by (simp add: ulp_def power_int_def field_simps)

lemma to_double_near:
  "\<bar>to_double x - x\<bar> \<le> ulp (max (floor_log2 \<bar>x\<bar>) (- 1022)) / 2"
proof (cases "x = 0")
  case True
  then show ?thesis using ulp_pos [of "max (floor_log2 \<bar>x\<bar>) (- 1022)"]
    by (simp add: to_double_def)
next
  case False
  define u where "u = ulp (max (floor_log2 \<bar>x\<bar>) (- 1022))"
  define n where "n = round_half_even (\<bar>x\<bar> / u)"
  have u: "0 < u" unfolding u_def by (rule ulp_pos)
  have "\<bar>real_of_int n - \<bar>x\<bar> / u\<bar> \<le> 1 / 2"
    unfolding n_def by (rule round_half_even_near)
  then have "\<bar>real_of_int n - \<bar>x\<bar> / u\<bar> * u \<le> 1 / 2 * u"
    using u by (simp only: mult_le_cancel_right_pos)
  moreover have "\<bar>real_of_int n - \<bar>x\<bar> / u\<bar> * u = \<bar>real_of_int n * u - \<bar>x\<bar>\<bar>"
  proof -
    have "(real_of_int n - \<bar>x\<bar> / u) * u = real_of_int n * u - \<bar>x\<bar>"
      using u by (simp add: left_diff_distrib)
    then have "\<bar>real_of_int n * u - \<bar>x\<bar>\<bar> = \<bar>(real_of_int n - \<bar>x\<bar> / u) * u\<bar>"
      by simp
    also have "\<dots> = \<bar>real_of_int n - \<bar>x\<bar> / u\<bar> * \<bar>u\<bar>"
      by (rule abs_mult)
    finally show ?thesis using u by simp
  qed
  ultimately have near: "\<bar>real_of_int n * u - \<bar>x\<bar>\<bar> \<le> u / 2"
    by simp
  have "to_double x - x = sgn x * (real_of_int n * u - \<bar>x\<bar>)"
    using False by (simp add: to_double_def Let_def u_def n_def right_diff_distrib sgn_if)
  then have "\<bar>to_double x - x\<bar> = \<bar>real_of_int n * u - \<bar>x\<bar>\<bar>"
    using False by (simp add: abs_mult sgn_if)
  with near show ?thesis unfolding u_def by simp
qed

section \<open>The result list\<close>

lemma mset_insert_by: "mset (insert_by cmp x xs) = add_mset x (mset xs)"
  by (induction xs) simp_all

lemma mset_Array_sort: "mset (Array_sort cmp xs) = mset xs"
  by (induction xs) (simp_all add: Array_sort_def mset_insert_by)

text \<open>
  When the comparator orders by a key, the model of \<open>sort\<close> is the library's stable
  insertion sort by that key.
\<close>

lemma insert_by_insort_key:
  assumes "\<And>a b. (cmp a b \<le> 0) = (f a \<le> f b)"
  shows "insert_by cmp x ys = insort_key f x ys"
  by (induction ys) (simp_all add: assms)

lemma Array_sort_sort_key:
  assumes "\<And>a b. (cmp a b \<le> 0) = (f a \<le> f b)"
  shows "Array_sort cmp xs = sort_key f xs"
proof -
  have "insert_by cmp = insort_key f"
    by (intro ext) (rule insert_by_insort_key [OF assms])
  then show ?thesis
    by (simp add: Array_sort_def sort_key_def)
qed

text \<open>
  In every setting of the sort controls the comparator of \<open>filtered.sort\<close> compares a
  numeric key of the two results, so it is a consistent ordering and the displayed list
  is the stable sort of the kept results by that key.
\<close>

lemma filteredAndSortedResults_sort_key:
  "filteredAndSortedResults st rs =
     sort_key (\<lambda>r. (if sortOrder st = desc then - 1 else 1)
                     * (case sortBy st of
                          similarity \<Rightarrow> similarity_score r
                        | experience \<Rightarrow> real_of_int (indexOf experienceLevels (level_or_empty r))))
       (filter (keeps st) rs)"
  unfolding filteredAndSortedResults_def
  by (rule Array_sort_sort_key) (simp add: compareResults_def split: SortBy.splits)

text \<open>
  Quotients of slider positions by 100, as JavaScript computes them: \<open>29 / 100\<close> is
  the double 0.28999999999999998..., below the exact 0.29; \<open>7 / 100\<close> is the double
  0.07000000000000000666..., above the exact 0.07; and every position from 0 to 100 gives
  a double within \<open>2 ^ - 54\<close> of the exact quotient.
\<close>

lemma number_div_0_100: "number_div 0 100 = 0"
  by (simp add: number_div_def to_double_def)

lemma number_div_29_100: "number_div 29 100 = 5224175567749775 / 2 ^ 54"
  by code_simp

lemma number_div_7_100: "number_div 7 100 = 5044031582654956 / 2 ^ 56"
  by code_simp

lemma number_div_50_100: "number_div 50 100 = 1 / 2"
  by code_simp

lemma slider_quotients_near:
  "list_all (\<lambda>m. \<bar>number_div (real_of_int m) 100 - real_of_int m / 100\<bar> \<le> 1 / 2 ^ 54)
     [0..100]"
  by code_simp

lemma slider_quotient_near:
  assumes "0 \<le> m" and "m \<le> 100"
  shows "\<bar>number_div (real_of_int m) 100 - real_of_int m / 100\<bar> \<le> 1 / 2 ^ 54"
proof -
  from assms have "m \<in> set [0..100]" by simp
  with slider_quotients_near show ?thesis
    unfolding list_all_iff by blast
qed

lemma keeps_iff:
  "keeps st r =
     (number_div (real_of_int (minSimilarity st)) 100 \<le> similarity_score r
      \<and> (experienceFilter st = [] \<or> experience_level r = Some (experienceFilter st)))"
  by (auto simp: keeps_def)

text \<open>
  C10 (as amended). For every state of the controls (threshold \<open>minSimilarity\<close>,
  experience filter, sort key and order) \<open>filteredAndSortedResults\<close> is a permutation of
  exactly those input results whose score is not below the double-precision quotient
  \<open>minSimilarity / 100\<close> and whose experience level equals the filter when the filter is
  not empty; for a slider position from 0 to 100 that quotient is within \<open>2 ^ - 54\<close> of
  the exact \<open>minSimilarity / 100\<close>. The list is a sub-multiset of the input and never
  longer than the input.
\<close>

theorem filteredAndSortedResults_permutes_kept:
  "mset (filteredAndSortedResults st rs)
     = mset (filter (\<lambda>r. number_div (real_of_int (minSimilarity st)) 100 \<le> similarity_score r
                       \<and> (experienceFilter st = []
                            \<or> experience_level r = Some (experienceFilter st))) rs)
   \<and> (0 \<le> minSimilarity st \<and> minSimilarity st \<le> 100 \<longrightarrow>
        \<bar>number_div (real_of_int (minSimilarity st)) 100 - real_of_int (minSimilarity st) / 100\<bar>
          \<le> 1 / 2 ^ 54)
   \<and> mset (filteredAndSortedResults st rs) \<subseteq># mset rs
   \<and> length (filteredAndSortedResults st rs) \<le> length rs"
proof -
  have m: "mset (filteredAndSortedResults st rs) = mset (filter (keeps st) rs)"
    by (simp add: filteredAndSortedResults_def mset_Array_sort)
  have k: "keeps st
      = (\<lambda>r. number_div (real_of_int (minSimilarity st)) 100 \<le> similarity_score r
                       \<and> (experienceFilter st = []
                            \<or> experience_level r = Some (experienceFilter st)))"
    by (intro ext) (rule keeps_iff)
  have near: "0 \<le> minSimilarity st \<and> minSimilarity st \<le> 100 \<longrightarrow>
        \<bar>number_div (real_of_int (minSimilarity st)) 100 - real_of_int (minSimilarity st) / 100\<bar>
          \<le> 1 / 2 ^ 54"
    using slider_quotient_near by blast
  have sub: "mset (filteredAndSortedResults st rs) \<subseteq># mset rs"
    unfolding m by simp
  have "length (filteredAndSortedResults st rs) = length (filter (keeps st) rs)"
    using m by (metis size_mset)
  then have len: "length (filteredAndSortedResults st rs) \<le> length rs"
    by simp
  from m k have "mset (filteredAndSortedResults st rs)
     = mset (filter (\<lambda>r. number_div (real_of_int (minSimilarity st)) 100 \<le> similarity_score r
                       \<and> (experienceFilter st = []
                            \<or> experience_level r = Some (experienceFilter st))) rs)"
    by simp
  with near sub len show ?thesis by blast
qed

theorem filteredAndSortedResults_permutes_kept_witness:
  "mset (filteredAndSortedResults
       (SearchResults_initial\<lparr>minSimilarity := 50, experienceFilter := ''senior''\<rparr>)
       [bare_result ''c1'' (4 / 10) (Some ''senior''), bare_result ''c2'' (8 / 10) (Some ''senior''),
        bare_result ''c3'' (9 / 10) (Some ''mid''), bare_result ''c4'' (6 / 10) None,
        bare_result ''c5'' (5 / 10) (Some ''senior'')])
     = {#bare_result ''c2'' (8 / 10) (Some ''senior''), bare_result ''c5'' (5 / 10) (Some ''senior'')#}
   \<and> \<bar>number_div (real_of_int 50) 100 - real_of_int 50 / 100\<bar> \<le> 1 / 2 ^ 54"
  using filteredAndSortedResults_permutes_kept
    [of "SearchResults_initial\<lparr>minSimilarity := 50, experienceFilter := ''senior''\<rparr>"
        "[bare_result ''c1'' (4 / 10) (Some ''senior''), bare_result ''c2'' (8 / 10) (Some ''senior''),
        bare_result ''c3'' (9 / 10) (Some ''mid''), bare_result ''c4'' (6 / 10) None,
        bare_result ''c5'' (5 / 10) (Some ''senior'')]"]
  by (simp add: SearchResults_initial_def bare_result_def number_div_50_100)

text \<open>
  C10 as stated fails: with the slider at 29 a result whose score is the double
  0.28999999999999998..., which is what \<open>29 / 100\<close> evaluates to, is displayed although
  its score is below the exact 29/100.
\<close>

theorem filteredAndSortedResults_rounded_threshold_counterexample:
  "filteredAndSortedResults (SearchResults_initial\<lparr>minSimilarity := 29\<rparr>)
       [bare_result ''c'' (5224175567749775 / 2 ^ 54) None]
     = [bare_result ''c'' (5224175567749775 / 2 ^ 54) None]
   \<and> \<not> real_of_int (minSimilarity (SearchResults_initial\<lparr>minSimilarity := 29\<rparr>)) / 100
         \<le> similarity_score (bare_result ''c'' (5224175567749775 / 2 ^ 54) None)"
  by (simp add: filteredAndSortedResults_def Array_sort_def keeps_def SearchResults_initial_def
      bare_result_def number_div_29_100)

lemma ranked_input_kept:
  assumes "sortBy st = similarity" and "sortOrder st = desc"
    and ranked: "sorted (map (\<lambda>r. (- similarity_score r, candidate_id r)) rs)"
  shows "filteredAndSortedResults st rs = filter (keeps st) rs"
proof -
  have eq: "filteredAndSortedResults st rs
      = sort_key (\<lambda>r. - similarity_score r) (filter (keeps st) rs)"
    using assms(1,2) by (simp add: filteredAndSortedResults_sort_key)
  from ranked have "sorted_wrt (\<lambda>a b. (- similarity_score a, candidate_id a)
      \<le> (- similarity_score b, candidate_id b)) rs"
    by (simp add: sorted_map)
  then have "sorted_wrt (\<lambda>a b. - similarity_score a \<le> - similarity_score b) rs"
    by (rule sorted_wrt_mono_rel [rotated]) (auto simp: less_eq_prod_def)
  then have "sorted (map (\<lambda>r. - similarity_score r) rs)"
    by (simp add: sorted_map)
  then have "sorted (map (\<lambda>r. - similarity_score r) (filter (keeps st) rs))"
    by (rule sorted_filter)
  then show ?thesis
    unfolding eq by (rule sort_key_id_if_sorted)
qed

text \<open>
  C2 (as amended). With the initial sort settings (by similarity, descending) the
  displayed list is ordered by \<open>similarity_score\<close> descending, and results with equal
  scores keep the order they have in the input list: there is no tie-break by candidate
  id, and the displayed order is a function of the input list and the controls. So when
  the input list is already ranked by score descending with ties in ascending candidate
  id, the displayed list is ranked that way too.
\<close>

theorem filteredAndSortedResults_similarity_desc:
  assumes "sortBy st = similarity" and "sortOrder st = desc"
  shows "sorted_wrt (\<lambda>a b. similarity_score b \<le> similarity_score a)
           (filteredAndSortedResults st rs)
    \<and> (\<forall>v. filter (\<lambda>r. similarity_score r = v) (filteredAndSortedResults st rs)
            = filter (\<lambda>r. similarity_score r = v) (filter (keeps st) rs))
    \<and> (sorted (map (\<lambda>r. (- similarity_score r, candidate_id r)) rs) \<longrightarrow>
         sorted (map (\<lambda>r. (- similarity_score r, candidate_id r))
           (filteredAndSortedResults st rs)))"
proof -
  have eq: "filteredAndSortedResults st rs
      = sort_key (\<lambda>r. - similarity_score r) (filter (keeps st) rs)"
    using assms by (simp add: filteredAndSortedResults_sort_key)
  have "sorted (map (\<lambda>r. - similarity_score r) (filteredAndSortedResults st rs))"
    unfolding eq by (rule sorted_sort_key)
  then have ordered: "sorted_wrt (\<lambda>a b. similarity_score b \<le> similarity_score a)
      (filteredAndSortedResults st rs)"
    by (simp add: sorted_map)
  have stable: "filter (\<lambda>r. similarity_score r = v) (filteredAndSortedResults st rs)
      = filter (\<lambda>r. similarity_score r = v) (filter (keeps st) rs)" for v
  proof -
    have "filter (\<lambda>r. - similarity_score r = - v) (filteredAndSortedResults st rs)
        = filter (\<lambda>r. - similarity_score r = - v) (filter (keeps st) rs)"
      unfolding eq by (rule sort_key_stable)
    then show ?thesis by simp
  qed
  have ranked: "sorted (map (\<lambda>r. (- similarity_score r, candidate_id r))
      (filteredAndSortedResults st rs))"
    if r: "sorted (map (\<lambda>r. (- similarity_score r, candidate_id r)) rs)"
  proof -
    from r have "sorted (map (\<lambda>r. (- similarity_score r, candidate_id r))
        (filter (keeps st) rs))"
      by (rule sorted_filter)
    then show ?thesis
      by (simp only: ranked_input_kept [OF assms r])
  qed
  from ordered stable ranked show ?thesis by blast
qed

theorem filteredAndSortedResults_similarity_desc_witness:
  "sortBy SearchResults_initial = similarity \<and> sortOrder SearchResults_initial = desc
   \<and> sorted_wrt (\<lambda>a b. similarity_score b \<le> similarity_score a)
       (filteredAndSortedResults SearchResults_initial
          [bare_result ''a'' (3 / 10) None, bare_result ''b'' (9 / 10) None,
           bare_result ''c'' (3 / 10) None])
   \<and> filter (\<lambda>r. similarity_score r = 3 / 10)
       (filteredAndSortedResults SearchResults_initial
          [bare_result ''a'' (3 / 10) None, bare_result ''b'' (9 / 10) None,
           bare_result ''c'' (3 / 10) None])
     = [bare_result ''a'' (3 / 10) None, bare_result ''c'' (3 / 10) None]
   \<and> sorted (map (\<lambda>r. (- similarity_score r, candidate_id r))
          [bare_result ''b'' (9 / 10) None, bare_result ''a'' (3 / 10) None,
           bare_result ''c'' (3 / 10) None])
   \<and> sorted (map (\<lambda>r. (- similarity_score r, candidate_id r))
       (filteredAndSortedResults SearchResults_initial
          [bare_result ''b'' (9 / 10) None, bare_result ''a'' (3 / 10) None,
           bare_result ''c'' (3 / 10) None]))"
proof -
  have by_similarity: "sortBy SearchResults_initial = similarity"
    and descending: "sortOrder SearchResults_initial = desc"
    by (simp_all add: SearchResults_initial_def)
  note t = filteredAndSortedResults_similarity_desc [OF by_similarity descending,
      of "[bare_result ''a'' (3 / 10) None, bare_result ''b'' (9 / 10) None,
           bare_result ''c'' (3 / 10) None]"]
  from t have ordered: "sorted_wrt (\<lambda>a b. similarity_score b \<le> similarity_score a)
       (filteredAndSortedResults SearchResults_initial
          [bare_result ''a'' (3 / 10) None, bare_result ''b'' (9 / 10) None,
           bare_result ''c'' (3 / 10) None])"
    by blast
  from t have "filter (\<lambda>r. similarity_score r = 3 / 10)
       (filteredAndSortedResults SearchResults_initial
          [bare_result ''a'' (3 / 10) None, bare_result ''b'' (9 / 10) None,
           bare_result ''c'' (3 / 10) None])
     = filter (\<lambda>r. similarity_score r = 3 / 10) (filter (keeps SearchResults_initial)
          [bare_result ''a'' (3 / 10) None, bare_result ''b'' (9 / 10) None,
           bare_result ''c'' (3 / 10) None])"
    by blast
  then have ties: "filter (\<lambda>r. similarity_score r = 3 / 10)
       (filteredAndSortedResults SearchResults_initial
          [bare_result ''a'' (3 / 10) None, bare_result ''b'' (9 / 10) None,
           bare_result ''c'' (3 / 10) None])
     = [bare_result ''a'' (3 / 10) None, bare_result ''c'' (3 / 10) None]"
    by (simp add: keeps_def SearchResults_initial_def bare_result_def number_div_0_100)
  have input_ranked: "sorted (map (\<lambda>r. (- similarity_score r, candidate_id r))
          [bare_result ''b'' (9 / 10) None, bare_result ''a'' (3 / 10) None,
           bare_result ''c'' (3 / 10) None])"
    by (simp add: bare_result_def)
  with filteredAndSortedResults_similarity_desc [OF by_similarity descending,
      of "[bare_result ''b'' (9 / 10) None, bare_result ''a'' (3 / 10) None,
           bare_result ''c'' (3 / 10) None]"]
  have output_ranked: "sorted (map (\<lambda>r. (- similarity_score r, candidate_id r))
       (filteredAndSortedResults SearchResults_initial
          [bare_result ''b'' (9 / 10) None, bare_result ''a'' (3 / 10) None,
           bare_result ''c'' (3 / 10) None]))"
    by blast
  from by_similarity descending ordered ties input_ranked output_ranked
  show ?thesis by blast
qed

text \<open>
  C2 as stated fails: two results with the same score are displayed in input
  order, here \<open>b\<close> before \<open>a\<close>, and the other input order of the same two results is
  displayed the other way round, so the order is not determined by the input set.
\<close>

theorem filteredAndSortedResults_ties_counterexample:
  "filteredAndSortedResults SearchResults_initial
       [bare_result ''b'' (1 / 2) None, bare_result ''a'' (1 / 2) None]
     = [bare_result ''b'' (1 / 2) None, bare_result ''a'' (1 / 2) None]
   \<and> similarity_score (bare_result ''b'' (1 / 2) None)
     = similarity_score (bare_result ''a'' (1 / 2) None)
   \<and> candidate_id (bare_result ''a'' (1 / 2) None) < candidate_id (bare_result ''b'' (1 / 2) None)
   \<and> filteredAndSortedResults SearchResults_initial
       [bare_result ''a'' (1 / 2) None, bare_result ''b'' (1 / 2) None]
     = [bare_result ''a'' (1 / 2) None, bare_result ''b'' (1 / 2) None]
   \<and> set [bare_result ''b'' (1 / 2) None, bare_result ''a'' (1 / 2) None]
     = set [bare_result ''a'' (1 / 2) None, bare_result ''b'' (1 / 2) None]"
  by (simp add: filteredAndSortedResults_def Array_sort_def keeps_def compareResults_def
      SearchResults_initial_def bare_result_def insert_commute number_div_0_100)

section \<open>Where CV text travels\<close>

lemma search_results_from_hits:
  assumes "SearchOrchestrator_search lo hi embedder index_query b reqs fs requested = Inr rs"
  obtains vec hits where "embedder reqs = Some vec"
    and "index_query vec (clampLimit lo hi requested) fs = Some hits"
    and "rs = take (clampLimit lo hi requested)
                (rerank (List.map_filter (resolveHit b) hits))"
  using assms
  by (auto simp: SearchOrchestrator_search_def Let_def split: if_splits option.splits)

lemma set_rerank: "set (rerank rs) = set rs"
  by (simp add: rerank_def)

lemma search_result_resolved:
  assumes "SearchOrchestrator_search lo hi embedder index_query b reqs fs requested = Inr rs"
    and "r \<in> set rs"
  obtains h where "resolveHit b h = Some r"
proof -
  from assms(1) obtain vec hits where "embedder reqs = Some vec" and
    rs: "rs = take (clampLimit lo hi requested)
                (rerank (List.map_filter (resolveHit b) hits))"
    by (rule search_results_from_hits)
  from assms(2) have "r \<in> set (rerank (List.map_filter (resolveHit b) hits))"
    unfolding rs by (rule in_set_takeD)
  then have "r \<in> set (List.map_filter (resolveHit b) hits)"
    by (simp only: set_rerank)
  then obtain h where "resolveHit b h = Some r"
    by (auto simp: List.map_filter_def)
  then show thesis by (rule that)
qed

lemma resolveHit_fields:
  assumes "resolveHit b h = Some r"
  shows "\<exists>p. p \<in> set (profiles b) \<and> vector_key p = Some (hit_key h)
      \<and> profile_status p = status_completed
      \<and> r = \<lparr>candidate_id = profile_id p, similarity_score = Rep_unit_score (hit_score h),
              first_name = Some (profile_first_name p), last_name = Some (profile_last_name p),
              email = Some (profile_email p), matched_skills = Some (hit_skill_tags h),
              experience_level = hit_experience_level h\<rparr>"
proof -
  from assms obtain p where
    found: "find (\<lambda>p. vector_key p = Some (hit_key h)) (profiles b) = Some p"
    and completed: "profile_status p = status_completed"
    and r: "r = \<lparr>candidate_id = profile_id p, similarity_score = Rep_unit_score (hit_score h),
              first_name = Some (profile_first_name p), last_name = Some (profile_last_name p),
              email = Some (profile_email p), matched_skills = Some (hit_skill_tags h),
              experience_level = hit_experience_level h\<rparr>"
    by (auto simp: resolveHit_def split: option.splits if_splits)
  from found have "p \<in> set (profiles b)" and "vector_key p = Some (hit_key h)"
    by (auto simp: find_Some_iff)
  with completed r show ?thesis by blast
qed

text \<open>
  C6. Every result of a search is built from a vector-index hit and the profile that owns
  it, and carries only the profile's id, name and email and the hit's score, skill tags
  and experience level; the search returns the same results whatever CV texts the backend
  holds. On the result list, \<open>recruiterApi.getCandidateCV\<close> is called only by View
  Details, once, for the candidate of that result; the CV text shown is that call's
  response, and any other action leaves it as it was or clears it. The displayed list
  does not depend on the modal, where the CV text lives.
\<close>

theorem search_results_carry_no_cv_text:
  "(SearchOrchestrator_search lo hi embedder index_query b reqs fs requested = Inr rs \<longrightarrow>
      (\<forall>r \<in> set rs. \<exists>(h :: IndexHit) p. p \<in> set (profiles b) \<and> vector_key p = Some (hit_key h)
         \<and> profile_status p = status_completed
         \<and> r = \<lparr>candidate_id = profile_id p, similarity_score = Rep_unit_score (hit_score h),
                 first_name = Some (profile_first_name p),
                 last_name = Some (profile_last_name p),
                 email = Some (profile_email p), matched_skills = Some (hit_skill_tags h),
                 experience_level = hit_experience_level h\<rparr>))
   \<and> SearchOrchestrator_search lo hi embedder index_query (b\<lparr>extracted_text := texts\<rparr>)
         reqs fs requested
       = SearchOrchestrator_search lo hi embedder index_query b reqs fs requested
   \<and> cvRequests (SearchResults_step e st)
       = cvRequests st @ (case e of ViewDetails outcome v \<Rightarrow> [candidate_id v] | _ \<Rightarrow> [])
   \<and> cvContent (cvModal (SearchResults_step e st))
       = (case e of
            ViewDetails outcome v \<Rightarrow> (case outcome of Inr response \<Rightarrow> cv_content response | Inl err \<Rightarrow> [])
          | CloseModal \<Rightarrow> []
          | _ \<Rightarrow> cvContent (cvModal st))
   \<and> filteredAndSortedResults (st\<lparr>cvModal := m\<rparr>) shown = filteredAndSortedResults st shown"
proof -
  have built: "SearchOrchestrator_search lo hi embedder index_query b reqs fs requested = Inr rs
      \<longrightarrow>
      (\<forall>r \<in> set rs. \<exists>(h :: IndexHit) p. p \<in> set (profiles b) \<and> vector_key p = Some (hit_key h)
         \<and> profile_status p = status_completed
         \<and> r = \<lparr>candidate_id = profile_id p, similarity_score = Rep_unit_score (hit_score h),
                 first_name = Some (profile_first_name p),
                 last_name = Some (profile_last_name p),
                 email = Some (profile_email p), matched_skills = Some (hit_skill_tags h),
                 experience_level = hit_experience_level h\<rparr>)"
  proof (intro impI ballI)
    fix r
    assume "SearchOrchestrator_search lo hi embedder index_query b reqs fs requested = Inr rs"
      and "r \<in> set rs"
    then obtain h where "resolveHit b h = Some r"
      by (rule search_result_resolved)
    from resolveHit_fields [OF this]
    show "\<exists>(h :: IndexHit) p. p \<in> set (profiles b) \<and> vector_key p = Some (hit_key h)
         \<and> profile_status p = status_completed
         \<and> r = \<lparr>candidate_id = profile_id p, similarity_score = Rep_unit_score (hit_score h),
                 first_name = Some (profile_first_name p),
                 last_name = Some (profile_last_name p),
                 email = Some (profile_email p), matched_skills = Some (hit_skill_tags h),
                 experience_level = hit_experience_level h\<rparr>"
      by (rule exI [of _ h])
  qed
  have same: "resolveHit (b\<lparr>extracted_text := texts\<rparr>) = resolveHit b"
    by (intro ext) (simp add: resolveHit_def)
  have independent:
    "SearchOrchestrator_search lo hi embedder index_query (b\<lparr>extracted_text := texts\<rparr>)
         reqs fs requested
       = SearchOrchestrator_search lo hi embedder index_query b reqs fs requested"
    by (simp only: SearchOrchestrator_search_def same)
  have requests: "cvRequests (SearchResults_step e st)
       = cvRequests st @ (case e of ViewDetails outcome v \<Rightarrow> [candidate_id v] | _ \<Rightarrow> [])"
    by (cases e) (simp_all add: handleViewDetails_def closeModal_def Let_def split: sum.splits)
  have content: "cvContent (cvModal (SearchResults_step e st))
       = (case e of
            ViewDetails outcome v \<Rightarrow> (case outcome of Inr response \<Rightarrow> cv_content response | Inl err \<Rightarrow> [])
          | CloseModal \<Rightarrow> []
          | _ \<Rightarrow> cvContent (cvModal st))"
    by (cases e)
      (simp_all add: handleViewDetails_def closeModal_def closedModal_def Let_def split: sum.splits)
  have "keeps (st\<lparr>cvModal := m\<rparr>) = keeps st"
    by (intro ext) (simp add: keeps_def)
  moreover have "compareResults (st\<lparr>cvModal := m\<rparr>) = compareResults st"
    by (intro ext) (simp add: compareResults_def)
  ultimately have list: "filteredAndSortedResults (st\<lparr>cvModal := m\<rparr>) shown
      = filteredAndSortedResults st shown"
    by (simp add: filteredAndSortedResults_def)
  from built independent requests content list show ?thesis by blast
qed

lemma example_search:
  "SearchOrchestrator_search 1 50 (\<lambda>t. Some [1]) example_query example_backend
       ''python'' Map.empty 3
     = Inr [\<lparr>candidate_id = ''c1'', similarity_score = 9 / 10, first_name = Some ''Ada'',
             last_name = Some ''Byron'', email = Some ''ada@example.org'',
             matched_skills = Some [''python''], experience_level = Some ''senior''\<rparr>,
            \<lparr>candidate_id = ''c3'', similarity_score = 7 / 10, first_name = Some ''Cyd'',
             last_name = Some ''Dane'', email = Some ''cyd@example.org'',
             matched_skills = Some [''sql''], experience_level = Some ''mid''\<rparr>]"
  by (simp add: SearchOrchestrator_search_def clampLimit_def example_query_def
      example_hits_def example_backend_def resolveHit_def rerank_def List.map_filter_def
      Abs_unit_score_inverse)

theorem search_results_carry_no_cv_text_witness:
  "SearchOrchestrator_search 1 50 (\<lambda>t. Some [1]) example_query
       (example_backend\<lparr>extracted_text := Map.empty\<rparr>) ''python'' Map.empty 3
     = SearchOrchestrator_search 1 50 (\<lambda>t. Some [1]) example_query example_backend
         ''python'' Map.empty 3
   \<and> (\<exists>(h :: IndexHit) p. p \<in> set (profiles example_backend)
         \<and> vector_key p = Some (hit_key h) \<and> profile_status p = status_completed
         \<and> \<lparr>candidate_id = ''c1'', similarity_score = 9 / 10, first_name = Some ''Ada'',
          last_name = Some ''Byron'', email = Some ''ada@example.org'',
          matched_skills = Some [''python''], experience_level = Some ''senior''\<rparr>
           = \<lparr>candidate_id = profile_id p, similarity_score = Rep_unit_score (hit_score h),
              first_name = Some (profile_first_name p),
              last_name = Some (profile_last_name p),
              email = Some (profile_email p), matched_skills = Some (hit_skill_tags h),
              experience_level = hit_experience_level h\<rparr>)
   \<and> cv_detail example_backend True ''c1'' = Some ''Ada Byron. Ten years of Python.''
   \<and> cvRequests (SearchResults_step
        (ViewDetails (Inr \<lparr>cv_candidate_id = ''c1'', cv_content = ''Ada Byron. Ten years of Python.'',
          cv_metadata = Map.empty\<rparr>)
          \<lparr>candidate_id = ''c1'', similarity_score = 9 / 10, first_name = Some ''Ada'',
          last_name = Some ''Byron'', email = Some ''ada@example.org'',
          matched_skills = Some [''python''], experience_level = Some ''senior''\<rparr>)
        SearchResults_initial) = [''c1'']
   \<and> cvContent (cvModal (SearchResults_step
        (ViewDetails (Inr \<lparr>cv_candidate_id = ''c1'', cv_content = ''Ada Byron. Ten years of Python.'',
          cv_metadata = Map.empty\<rparr>)
          \<lparr>candidate_id = ''c1'', similarity_score = 9 / 10, first_name = Some ''Ada'',
          last_name = Some ''Byron'', email = Some ''ada@example.org'',
          matched_skills = Some [''python''], experience_level = Some ''senior''\<rparr>)
        SearchResults_initial)) = ''Ada Byron. Ten years of Python.''"
proof -
  let ?r1 = "\<lparr>candidate_id = ''c1'', similarity_score = 9 / 10, first_name = Some ''Ada'',
          last_name = Some ''Byron'', email = Some ''ada@example.org'',
          matched_skills = Some [''python''], experience_level = Some ''senior''\<rparr>"
  let ?r3 = "\<lparr>candidate_id = ''c3'', similarity_score = 7 / 10, first_name = Some ''Cyd'',
          last_name = Some ''Dane'', email = Some ''cyd@example.org'',
          matched_skills = Some [''sql''], experience_level = Some ''mid''\<rparr>"
  let ?view = "ViewDetails (Inr \<lparr>cv_candidate_id = ''c1'', cv_content = ''Ada Byron. Ten years of Python.'',
          cv_metadata = Map.empty\<rparr>) ?r1"
  note t = search_results_carry_no_cv_text
    [where lo = 1 and hi = 50 and embedder = "\<lambda>t. Some [1]" and index_query = example_query
       and b = example_backend and reqs = "''python''" and fs = Map.empty and requested = 3
       and rs = "[?r1, ?r3]" and texts = Map.empty and e = ?view
       and st = SearchResults_initial]
  from t have independent:
    "SearchOrchestrator_search 1 50 (\<lambda>t. Some [1]) example_query
       (example_backend\<lparr>extracted_text := Map.empty\<rparr>) ''python'' Map.empty 3
     = SearchOrchestrator_search 1 50 (\<lambda>t. Some [1]) example_query example_backend
         ''python'' Map.empty 3"
    by (rule conjunct1 [OF conjunct2])
  from t example_search
  have "\<forall>r \<in> set [?r1, ?r3]. \<exists>(h :: IndexHit) p. p \<in> set (profiles example_backend)
         \<and> vector_key p = Some (hit_key h) \<and> profile_status p = status_completed
         \<and> r = \<lparr>candidate_id = profile_id p, similarity_score = Rep_unit_score (hit_score h),
                 first_name = Some (profile_first_name p),
                 last_name = Some (profile_last_name p),
                 email = Some (profile_email p), matched_skills = Some (hit_skill_tags h),
                 experience_level = hit_experience_level h\<rparr>"
    by (rule mp [OF conjunct1])
  then have built: "(\<exists>(h :: IndexHit) p. p \<in> set (profiles example_backend)
         \<and> vector_key p = Some (hit_key h) \<and> profile_status p = status_completed
         \<and> ?r1
           = \<lparr>candidate_id = profile_id p, similarity_score = Rep_unit_score (hit_score h),
              first_name = Some (profile_first_name p),
              last_name = Some (profile_last_name p),
              email = Some (profile_email p), matched_skills = Some (hit_skill_tags h),
              experience_level = hit_experience_level h\<rparr>)"
    by (rule bspec) simp
  have detail: "cv_detail example_backend True ''c1'' = Some ''Ada Byron. Ten years of Python.''"
    by (simp add: cv_detail_def example_backend_def)
  from t have requests: "cvRequests (SearchResults_step ?view SearchResults_initial) = [''c1'']"
    by (simp add: SearchResults_initial_def)
  from t have content: "cvContent (cvModal (SearchResults_step ?view SearchResults_initial))
      = ''Ada Byron. Ten years of Python.''"
    by simp
  from independent built detail requests content show ?thesis
    by (intro conjI)
qed

section \<open>The processing status\<close>

text \<open>
  C3 (as amended). Every value the \<open>Candidate\<close> type admits for
  \<open>cv_processing_status\<close> is one of the five values none, pending, processing, completed,
  failed; the type admits pending, completed and failed; it does not admit none, which
  is only the text the dashboard passes to \<open>getStatusColor\<close> and \<open>getStatusText\<close> while
  no profile is loaded, and which is displayed like pending.
\<close>

theorem cv_processing_status_admitted:
  "status_literal v \<in> {''none'', ''pending'', ''processing'', ''completed'', ''failed''}
   \<and> ''pending'' \<in> range status_literal
   \<and> ''completed'' \<in> range status_literal
   \<and> ''failed'' \<in> range status_literal
   \<and> status_literal v \<noteq> ''none''
   \<and> displayedStatus None = ''none''
   \<and> displayedStatus (Some (p :: Candidate)) = status_literal (cv_processing_status p)
   \<and> getStatusText (displayedStatus None) = ''No CV Uploaded''
   \<and> getStatusText (status_literal pending) = ''No CV Uploaded''
   \<and> getStatusColor (displayedStatus None) = getStatusColor (status_literal pending)"
proof -
  have five: "status_literal v \<in> {''none'', ''pending'', ''processing'', ''completed'', ''failed''}"
    by (cases v) simp_all
  have admitted: "''pending'' \<in> range status_literal" "''completed'' \<in> range status_literal"
    "''failed'' \<in> range status_literal"
    by (rule range_eqI [of _ _ pending], simp, rule range_eqI [of _ _ completed], simp,
        rule range_eqI [of _ _ failed], simp)
  have not_none: "status_literal v \<noteq> ''none''"
    by (cases v) simp_all
  have shown: "displayedStatus (Some p) = status_literal (cv_processing_status p)"
    by (cases "cv_processing_status p") (simp_all add: displayedStatus_def)
  have fallback: "displayedStatus None = ''none''"
    by (simp add: displayedStatus_def)
  have text_none: "getStatusText (displayedStatus None) = ''No CV Uploaded''"
    by (simp add: displayedStatus_def getStatusText_def)
  have text_pending: "getStatusText (status_literal pending) = ''No CV Uploaded''"
    by (simp add: getStatusText_def)
  have colour: "getStatusColor (displayedStatus None) = getStatusColor (status_literal pending)"
    by (simp add: displayedStatus_def getStatusColor_def)
  from five admitted not_none shown fallback text_none text_pending colour
  show ?thesis by blast
qed

text \<open>
  C3 as stated fails: none is one of the five values, and no value of the type
  stands for it.
\<close>

theorem cv_processing_status_none_counterexample:
  "''none'' \<notin> range status_literal"
proof
  assume "''none'' \<in> range status_literal"
  then obtain v where "''none'' = status_literal v" by blast
  then show False by (cases v) simp_all
qed

section \<open>The search result bound\<close>



end
